theory Spec2Isabelle
  imports Main "HOL-Library.Sublist" "HOL-Library.AList" "HOL-Library.Multiset"
begin

section \<open>The performance-analysis toolkit\<close>

text \<open>
  A shallow embedding of the three JavaScript classes of the toolkit:
  \<^verbatim>\<open>PerformanceAnalyzer\<close> (src/performance-analyzer.js), \<^verbatim>\<open>BundleAnalyzer\<close>
  (bundle-analyzer.js, the second file of src/unnamed/part_007) and
  \<^verbatim>\<open>PerformanceAnalysisRunner\<close> (run-performance-analysis.js, the first file of
  src/unnamed/part_005).

  Conventions of the embedding.
  \<^item> A JavaScript exception is a value \<open>Inl e\<close> of a sum type; \<open>Inr v\<close> is a normal
    return. A \<^verbatim>\<open>try { ... } catch\<close> block is a case split on that sum.
  \<^item> JavaScript numbers that count things or hold byte sizes are \<open>nat\<close>, the score is
    an \<open>int\<close>; all of them stay far below \<open>2^53\<close>, where JavaScript arithmetic on
    integers is exact.
  \<^item> Text written with \<^verbatim>\<open>console.log\<close> is not part of the model.
  \<^item> An object used as a dictionary is an association list in the order
    \<^verbatim>\<open>Object.keys\<close> enumerates it.
\<close>

subsection \<open>Exceptions\<close>

text \<open>
  The exceptions the toolkit can meet: the three file-system errors of Node's
  \<^verbatim>\<open>fs\<close> module (permission denied, not a directory, no such file) and the
  \<^verbatim>\<open>SyntaxError\<close> of \<^verbatim>\<open>JSON.parse\<close>.
\<close>

datatype error = EACCES | ENOTDIR | ENOENT | SyntaxError

subsection \<open>Strings and paths\<close>

text \<open>
  Strings are byte strings. \<^verbatim>\<open>s.includes(t)\<close>, \<^verbatim>\<open>s.startsWith(t)\<close> and
  \<^verbatim>\<open>s.endsWith(t)\<close> are used with ASCII arguments \<open>t\<close> only, for which matching on
  UTF-8 bytes and on UTF-16 code units agree.
\<close>

definition str_includes :: "string \<Rightarrow> string \<Rightarrow> bool" where
  "str_includes s t = sublist t s"

definition startsWith :: "string \<Rightarrow> string \<Rightarrow> bool" where
  "startsWith s t = prefix t s"

definition endsWith :: "string \<Rightarrow> string \<Rightarrow> bool" where
  "endsWith s t = suffix t s"

text \<open>\<^verbatim>\<open>content.split('\n')\<close>: the pieces between line feeds, at least one piece.\<close>

fun split_lines :: "string \<Rightarrow> string list" where
  "split_lines [] = [[]]"
| "split_lines (c # cs) =
     (if c = CHR 0x0A then [] # split_lines cs
      else (case split_lines cs of
              [] \<Rightarrow> [[c]]
            | l # ls \<Rightarrow> (c # l) # ls))"

text \<open>\<^verbatim>\<open>toLowerCase\<close>, on the ASCII letters (the extensions it is compared with are
  ASCII, and no other character lower-cases to one of their letters).\<close>

definition lower_char :: "char \<Rightarrow> char" where
  "lower_char c =
     (case map_of (zip ''ABCDEFGHIJKLMNOPQRSTUVWXYZ'' ''abcdefghijklmnopqrstuvwxyz'') c of
        None \<Rightarrow> c
      | Some l \<Rightarrow> l)"

definition toLowerCase :: "string \<Rightarrow> string" where
  "toLowerCase s = map lower_char s"

text \<open>
  A path is the list of its segments: \<^verbatim>\<open>path.join(dir, name)\<close> appends a segment,
  \<^verbatim>\<open>path.basename\<close> is the last segment, and \<^verbatim>\<open>path.relative(from, to)\<close> drops the
  common prefix and climbs out of what is left of \<open>from\<close>. \<open>path_string\<close> is the string
  JavaScript holds.
\<close>

type_synonym fpath = "string list"

definition path_join :: "fpath \<Rightarrow> string \<Rightarrow> fpath" where
  "path_join dir name = dir @ [name]"

definition path_basename :: "fpath \<Rightarrow> string" where
  "path_basename p = (if p = [] then [] else last p)"

fun path_relative :: "fpath \<Rightarrow> fpath \<Rightarrow> fpath" where
  "path_relative [] to = to"
| "path_relative (a # as) [] = replicate (length (a # as)) ''..''"
| "path_relative (a # as) (b # bs) =
     (if a = b then path_relative as bs else replicate (length (a # as)) ''..'' @ (b # bs))"

fun path_string :: "fpath \<Rightarrow> string" where
  "path_string [] = []"
| "path_string [s] = s"
| "path_string (s # t # ss) = s @ ''/'' @ path_string (t # ss)"

text \<open>
  \<^verbatim>\<open>path.extname\<close> of Node, on a name without separators: the text from the last dot
  on; empty when there is no dot, when the only dot is the first character, and for
  the name \<^verbatim>\<open>..\<close>.
\<close>

definition path_extname :: "string \<Rightarrow> string" where
  "path_extname name =
     (let ext = CHR ''.'' # rev (takeWhile (\<lambda>c. c \<noteq> CHR ''.'') (rev name))
      in if CHR ''.'' \<notin> set name \<or> length ext = length name \<or> name = ''..'' then [] else ext)"

subsection \<open>The file system\<close>

text \<open>
  What the toolkit can see of the file system below the project root, as a tree.
  \<^item> \<open>File size content\<close>: a regular file; \<open>size\<close> is what \<^verbatim>\<open>statSync\<close> reports,
    \<open>None\<close> when \<^verbatim>\<open>statSync\<close> throws on the file (as it does on a file that
    \<^verbatim>\<open>readdirSync\<close> lists in a directory without search permission), and \<open>content\<close>
    what \<^verbatim>\<open>readFileSync(file, 'utf8')\<close> returns, \<open>None\<close> when reading it throws.
  \<^item> \<open>Dir readable entries\<close>: a directory; \<^verbatim>\<open>readdirSync\<close> throws on it when
    \<open>readable\<close> is false. The entries are in the order \<^verbatim>\<open>readdirSync\<close> lists them.
  \<^item> \<open>Other\<close>: an entry for which \<^verbatim>\<open>Dirent.isFile()\<close> and
    \<^verbatim>\<open>Dirent.isDirectory()\<close> are both false (a symbolic link, a socket, a FIFO).
\<close>

datatype fsnode =
    File "nat option" "string option"
  | Dir bool "(string \<times> fsnode) list"
  | Other

fun isDirectory :: "fsnode \<Rightarrow> bool" where
  "isDirectory (Dir r es) = True"
| "isDirectory n = False"

fun isFile :: "fsnode \<Rightarrow> bool" where
  "isFile (File sz c) = True"
| "isFile n = False"

fun fs_lookup :: "fsnode \<Rightarrow> fpath \<Rightarrow> fsnode option" where
  "fs_lookup n [] = Some n"
| "fs_lookup (Dir r es) (s # ss) =
     (case map_of es s of None \<Rightarrow> None | Some n \<Rightarrow> fs_lookup n ss)"
| "fs_lookup n (s # ss) = None"

text \<open>
  The package manifest \<^verbatim>\<open>package.json\<close> of the project root is kept apart from the
  tree, as what \<^verbatim>\<open>existsSync\<close>, \<^verbatim>\<open>readFileSync\<close> and \<^verbatim>\<open>JSON.parse\<close> make of it:
  absent, present but not parseable as JSON, or a parsed object. Of the object, the
  model keeps what the toolkit reads: the dependency maps and the scripts (\<open>None\<close> when
  the key is missing), and whether the key \<^verbatim>\<open>sideEffects\<close> is present.
\<close>

record package_json =
  pkg_dependencies :: "(string \<times> string) list option"
  pkg_devDependencies :: "(string \<times> string) list option"
  pkg_scripts :: "(string \<times> string) list option"
  pkg_sideEffects :: bool

datatype manifest = Absent | Malformed | Manifest package_json

text \<open>
  The environment of a run: the working directory (\<open>None\<close> when \<^verbatim>\<open>process.cwd()\<close>
  throws), the tree below it, the manifest, and whether \<^verbatim>\<open>writeFileSync\<close> into the
  working directory succeeds. The files a run writes are reports and generated
  configurations that the same run never reads again, so the tree stays as it is.
\<close>

record env =
  cwd :: "fpath option"
  tree :: fsnode
  manifest :: manifest
  writable :: bool

definition node_at :: "env \<Rightarrow> fpath \<Rightarrow> fpath \<Rightarrow> fsnode option" where
  "node_at e projectRoot p =
     (if prefix projectRoot p then fs_lookup (tree e) (drop (length projectRoot) p) else None)"

definition manifest_path :: "fpath \<Rightarrow> fpath" where
  "manifest_path projectRoot = path_join projectRoot ''package.json''"

definition existsSync :: "env \<Rightarrow> fpath \<Rightarrow> fpath \<Rightarrow> bool" where
  "existsSync e projectRoot p =
     (if p = manifest_path projectRoot then manifest e \<noteq> Absent
      else node_at e projectRoot p \<noteq> None)"

text \<open>\<^verbatim>\<open>JSON.parse(fs.readFileSync(packageJsonPath, 'utf8'))\<close>.\<close>

definition read_manifest :: "env \<Rightarrow> error + package_json" where
  "read_manifest e =
     (case manifest e of
        Absent \<Rightarrow> Inl ENOENT
      | Malformed \<Rightarrow> Inl SyntaxError
      | Manifest pkg \<Rightarrow> Inr pkg)"

text \<open>\<^verbatim>\<open>fs.statSync(file).size\<close> and \<^verbatim>\<open>fs.readFileSync(file, 'utf8')\<close>. Both throw
  on a file whose size, respectively content, the tree marks with \<open>None\<close>. The
  toolkit calls them on regular files only; on a directory the model lets both
  throw.\<close>

definition statSync :: "env \<Rightarrow> fpath \<Rightarrow> fpath \<Rightarrow> error + nat" where
  "statSync e projectRoot p =
     (case node_at e projectRoot p of
        Some (File (Some sz) c) \<Rightarrow> Inr sz
      | Some n \<Rightarrow> Inl EACCES
      | None \<Rightarrow> Inl ENOENT)"

definition readFileSync :: "env \<Rightarrow> fpath \<Rightarrow> fpath \<Rightarrow> error + string" where
  "readFileSync e projectRoot p =
     (case node_at e projectRoot p of
        Some (File sz (Some content)) \<Rightarrow> Inr content
      | Some n \<Rightarrow> Inl EACCES
      | None \<Rightarrow> Inl ENOENT)"

subsection \<open>Running the phases of an analysis\<close>

text \<open>
  Both analyzers run their phases inside one \<^verbatim>\<open>try\<close> block whose \<^verbatim>\<open>catch\<close> logs the
  error and returns. A phase maps the analyzer's \<^verbatim>\<open>results\<close> to the new results and
  the exception it threw, if any; \<open>run_phases\<close> stops at the first phase that throws
  and keeps the results as that phase left them.
\<close>

type_synonym 's phase = "'s \<Rightarrow> 's \<times> error option"

fun run_phases :: "'s phase list \<Rightarrow> 's \<Rightarrow> 's \<times> error option" where
  "run_phases [] s = (s, None)"
| "run_phases (p # ps) s =
     (case p s of
        (s', Some e) \<Rightarrow> (s', Some e)
      | (s', None) \<Rightarrow> run_phases ps s')"

subsection \<open>Recommendations\<close>

text \<open>
  A recommendation as both analyzers build it: the four fields every recommendation
  has, and the optional ones (\<open>None\<close> when the object literal does not set them).
  \<^verbatim>\<open>files\<close> holds the large files as (relative path, size in KB) pairs; \<^verbatim>\<open>size\<close> is a
  label rendered from a byte count, of which the model keeps the byte count.
\<close>

record recommendation =
  category :: string
  priority :: string
  issue :: string
  solution :: string
  dependencies :: "string list option"
  files :: "(fpath \<times> nat) list option"
  count :: "nat option"
  size_label :: "nat option"

definition recommend :: "string \<Rightarrow> string \<Rightarrow> string \<Rightarrow> string \<Rightarrow> recommendation" where
  "recommend c p i s =
     \<lparr>category = c, priority = p, issue = i, solution = s,
      dependencies = None, files = None, count = None, size_label = None\<rparr>"

subsection \<open>PerformanceAnalyzer (performance-analyzer.js)\<close>

record dependency_analysis =
  totalDependencies :: nat
  totalDevDependencies :: nat
  heavyDependencies :: "string list"
  duplicateDependencies :: "string list list"

text \<open>An entry of \<^verbatim>\<open>inefficientPatterns\<close>: \<^verbatim>\<open>{ file, line, issue }\<close>.\<close>

record code_issue =
  issue_file :: fpath
  issue_line :: nat
  issue_text :: string

record code_patterns =
  largeFiles :: "(fpath \<times> nat) list"
  inefficientPatterns :: "code_issue list"
  unusedImports :: "string list"
  inlineStyles :: nat
  consoleStatements :: nat

record bundle_config =
  hasWebpack :: bool
  hasVite :: bool
  hasRollup :: bool
  hasParcel :: bool
  buildScripts :: "(string \<times> string) list"

text \<open>
  \<^verbatim>\<open>this.results\<close> of a PerformanceAnalyzer. \<^verbatim>\<open>projectType\<close> is \<open>None\<close> while the
  property is not set; the three analysis sections are \<open>None\<close> while they are the
  empty object \<^verbatim>\<open>{}\<close> of the constructor.
\<close>

record pa_results =
  projectType :: "string option"
  dependencyAnalysis :: "dependency_analysis option"
  codeAnalysis :: "code_patterns option"
  bundleAnalysis :: "bundle_config option"
  recommendations :: "recommendation list"

definition pa_initial :: pa_results where
  "pa_initial =
     \<lparr>projectType = None, dependencyAnalysis = None, codeAnalysis = None,
      bundleAnalysis = None, recommendations = []\<rparr>"

text \<open>
  \<^verbatim>\<open>{ ...packageJson.dependencies, ...packageJson.devDependencies }\<close> read at one key:
  the later spread wins. \<open>truthy\<close> is JavaScript's truth of a property holding a
  version string: set, and not the empty string.
\<close>

definition spread_lookup ::
  "(string \<times> string) list option \<Rightarrow> (string \<times> string) list option \<Rightarrow> string \<Rightarrow> string option" where
  "spread_lookup deps devDeps k =
     (case map_of (case devDeps of None \<Rightarrow> [] | Some d \<Rightarrow> d) k of
        Some v \<Rightarrow> Some v
      | None \<Rightarrow> map_of (case deps of None \<Rightarrow> [] | Some d \<Rightarrow> d) k)"

definition truthy :: "string option \<Rightarrow> bool" where
  "truthy v = (case v of None \<Rightarrow> False | Some s \<Rightarrow> s \<noteq> [])"

definition detectProjectType :: "env \<Rightarrow> fpath \<Rightarrow> pa_results phase" where
  "detectProjectType e projectRoot results =
     (if \<not> existsSync e projectRoot (manifest_path projectRoot)
      then (results\<lparr>projectType := Some ''unknown''\<rparr>, None)
      else
        (case read_manifest e of
           Inl err \<Rightarrow> (results, Some err)
         | Inr packageJson \<Rightarrow>
             (let dep = (\<lambda>k. truthy (spread_lookup (pkg_dependencies packageJson)
                                      (pkg_devDependencies packageJson) k))
              in (results\<lparr>projectType := Some
                    (if dep ''react'' then ''React''
                     else if dep ''vue'' \<or> dep ''@vue/cli-service'' then ''Vue''
                     else if dep ''@angular/core'' then ''Angular''
                     else if dep ''next'' then ''Next.js''
                     else if dep ''svelte'' then ''Svelte''
                     else ''JavaScript'')\<rparr>, None))))"

definition duplicateGroups :: "string list list" where
  "duplicateGroups =
     [[''moment'', ''dayjs'', ''date-fns''],
      [''lodash'', ''underscore'', ''ramda''],
      [''axios'', ''fetch'', ''superagent''],
      [''uuid'', ''shortid'', ''nanoid'']]"

text \<open>
  \<^verbatim>\<open>findDuplicateDependencies\<close>: for every group in turn, the declared names that are
  members of the group, pushed when there are at least two.
\<close>

definition findDuplicateDependencies :: "(string \<times> string) list \<Rightarrow> string list list" where
  "findDuplicateDependencies deps =
     (let depNames = map fst deps
      in foldl (\<lambda>duplicates group.
                 (let found = filter (\<lambda>dep. dep \<in> set group) depNames
                  in if length found > 1 then duplicates @ [found] else duplicates))
           [] duplicateGroups)"

definition heavyList :: "string list" where
  "heavyList =
     [''lodash'', ''moment'', ''jquery'', ''bootstrap'', ''antd'',
      ''material-ui'', ''@material-ui/core'', ''rxjs'']"

definition analyzeDependencies :: "env \<Rightarrow> fpath \<Rightarrow> pa_results phase" where
  "analyzeDependencies e projectRoot results =
     (if \<not> existsSync e projectRoot (manifest_path projectRoot) then (results, None)
      else
        (case read_manifest e of
           Inl err \<Rightarrow> (results, Some err)
         | Inr packageJson \<Rightarrow>
             (let deps = (case pkg_dependencies packageJson of None \<Rightarrow> [] | Some d \<Rightarrow> d);
                  devDeps = (case pkg_devDependencies packageJson of None \<Rightarrow> [] | Some d \<Rightarrow> d);
                  foundHeavy = filter (\<lambda>dep. list_ex (\<lambda>heavy. str_includes dep heavy) heavyList)
                                 (map fst deps)
              in (results\<lparr>dependencyAnalysis := Some
                    \<lparr>totalDependencies = length (map fst deps),
                     totalDevDependencies = length (map fst devDeps),
                     heavyDependencies = foundHeavy,
                     duplicateDependencies = findDuplicateDependencies deps\<rparr>\<rparr>, None))))"

text \<open>
  \<^verbatim>\<open>findFiles(extensions, dir)\<close>. The recursion follows the tree: the node passed
  along with \<open>dir\<close> is the directory \<^verbatim>\<open>readdirSync(dir)\<close> reads. There is no
  \<^verbatim>\<open>try\<close> in the source function, so the exception of a \<^verbatim>\<open>readdirSync\<close> ends every
  enclosing call.
\<close>

fun findFiles :: "string list \<Rightarrow> fpath \<Rightarrow> fsnode \<Rightarrow> error + fpath list"
and findFiles_entries :: "string list \<Rightarrow> fpath \<Rightarrow> (string \<times> fsnode) list \<Rightarrow> error + fpath list" where
  "findFiles extensions dir (Dir r es) =
     (if r then findFiles_entries extensions dir es else Inl EACCES)"
| "findFiles extensions dir (File sz c) = Inl ENOTDIR"
| "findFiles extensions dir Other = Inl ENOTDIR"
| "findFiles_entries extensions dir [] = Inr []"
| "findFiles_entries extensions dir ((name, node) # rest) =
     (if isDirectory node \<and> \<not> startsWith name ''.'' \<and> name \<noteq> ''node_modules''
      then (case findFiles extensions (path_join dir name) node of
              Inl err \<Rightarrow> Inl err
            | Inr found \<Rightarrow>
                (case findFiles_entries extensions dir rest of
                   Inl err \<Rightarrow> Inl err
                 | Inr others \<Rightarrow> Inr (found @ others)))
      else if isFile node \<and> path_extname name \<in> set extensions
      then (case findFiles_entries extensions dir rest of
              Inl err \<Rightarrow> Inl err
            | Inr others \<Rightarrow> Inr (path_join dir name # others))
      else findFiles_entries extensions dir rest)"

text \<open>The callback of \<^verbatim>\<open>lines.forEach((line, index) => ...)\<close> in
  \<^verbatim>\<open>analyzeCodePatterns\<close>.\<close>

definition scan_line :: "fpath \<Rightarrow> fpath \<Rightarrow> code_patterns \<Rightarrow> nat \<times> string \<Rightarrow> code_patterns" where
  \<open>scan_line projectRoot file patterns il =
     (let index = fst il; line = snd il;
          p1 = (if str_includes line ''style={{'' \<or> str_includes line ''style="{''
                then patterns\<lparr>inlineStyles := inlineStyles patterns + 1\<rparr> else patterns);
          p2 = (if str_includes line ''console.''
                then p1\<lparr>consoleStatements := consoleStatements p1 + 1\<rparr> else p1)
      in if str_includes line ''document.querySelector'' \<or> str_includes line ''getElementById''
         then p2\<lparr>inefficientPatterns := inefficientPatterns p2 @
                [\<lparr>issue_file = path_relative projectRoot file, issue_line = index + 1,
                  issue_text = ''DOM manipulation in component''\<rparr>]\<rparr>
         else p2)\<close>

text \<open>
  The body of the loop over the code files, with its \<^verbatim>\<open>try\<close>/\<^verbatim>\<open>catch\<close>: a file
  that cannot be read or whose \<^verbatim>\<open>statSync\<close> throws leaves the patterns as they are.
  \<^verbatim>\<open>Math.round(stats.size / 1024)\<close> rounds half up.
\<close>

definition scan_file :: "env \<Rightarrow> fpath \<Rightarrow> code_patterns \<Rightarrow> fpath \<Rightarrow> code_patterns" where
  "scan_file e projectRoot patterns file =
     (case readFileSync e projectRoot file of
        Inl err \<Rightarrow> patterns
      | Inr content \<Rightarrow>
          (case statSync e projectRoot file of
             Inl err \<Rightarrow> patterns
           | Inr sz \<Rightarrow>
               (let p1 = (if sz > 100000
                          then patterns\<lparr>largeFiles := largeFiles patterns @
                                 [(path_relative projectRoot file, (sz + 512) div 1024)]\<rparr>
                          else patterns);
                    lines = split_lines content
                in foldl (scan_line projectRoot file) p1 (zip [0..<length lines] lines))))"

definition code_extensions :: "string list" where
  "code_extensions = [''.js'', ''.jsx'', ''.ts'', ''.tsx'', ''.vue'', ''.svelte'']"

definition no_patterns :: code_patterns where
  "no_patterns =
     \<lparr>largeFiles = [], inefficientPatterns = [], unusedImports = [],
      inlineStyles = 0, consoleStatements = 0\<rparr>"

text \<open>\<^verbatim>\<open>readdirSync(dir)\<close> at the path where a walk starts.\<close>

definition findFiles_at :: "env \<Rightarrow> fpath \<Rightarrow> string list \<Rightarrow> fpath \<Rightarrow> error + fpath list" where
  "findFiles_at e projectRoot extensions dir =
     (case node_at e projectRoot dir of
        None \<Rightarrow> Inl ENOENT
      | Some node \<Rightarrow> findFiles extensions dir node)"

definition analyzeCodePatterns :: "env \<Rightarrow> fpath \<Rightarrow> pa_results phase" where
  "analyzeCodePatterns e projectRoot results =
     (case findFiles_at e projectRoot code_extensions projectRoot of
        Inl err \<Rightarrow> (results, Some err)
      | Inr codeFiles \<Rightarrow>
          (results\<lparr>codeAnalysis := Some (foldl (scan_file e projectRoot) no_patterns codeFiles)\<rparr>,
           None))"

definition getBuildScripts :: "env \<Rightarrow> fpath \<Rightarrow> error + (string \<times> string) list" where
  "getBuildScripts e projectRoot =
     (if \<not> existsSync e projectRoot (manifest_path projectRoot) then Inr []
      else
        (case read_manifest e of
           Inl err \<Rightarrow> Inl err
         | Inr packageJson \<Rightarrow>
             Inr (case pkg_scripts packageJson of None \<Rightarrow> [] | Some s \<Rightarrow> s)))"

definition analyzeBundleSize :: "env \<Rightarrow> fpath \<Rightarrow> pa_results phase" where
  "analyzeBundleSize e projectRoot results =
     (case getBuildScripts e projectRoot of
        Inl err \<Rightarrow> (results, Some err)
      | Inr scripts \<Rightarrow>
          (results\<lparr>bundleAnalysis := Some
             \<lparr>hasWebpack = existsSync e projectRoot (path_join projectRoot ''webpack.config.js''),
              hasVite = existsSync e projectRoot (path_join projectRoot ''vite.config.js''),
              hasRollup = existsSync e projectRoot (path_join projectRoot ''rollup.config.js''),
              hasParcel = existsSync e projectRoot (path_join projectRoot ''.parcelrc''),
              buildScripts = scripts\<rparr>\<rparr>, None))"

definition addFrameworkSpecificRecommendations ::
  "pa_results \<Rightarrow> recommendation list \<Rightarrow> recommendation list" where
  "addFrameworkSpecificRecommendations results recs =
     (if projectType results = Some ''React''
      then recs @ [recommend ''React Optimization'' ''Medium'' ''General React optimizations''
             ''Implement React.memo, useMemo, useCallback for expensive operations'']
      else if projectType results = Some ''Vue''
      then recs @ [recommend ''Vue Optimization'' ''Medium'' ''General Vue optimizations''
             ''Use v-memo, computed properties, and async components'']
      else if projectType results = Some ''Angular''
      then recs @ [recommend ''Angular Optimization'' ''Medium'' ''General Angular optimizations''
             ''Implement OnPush change detection, lazy loading modules'']
      else recs)"

definition generateRecommendations :: "pa_results phase" where
  "generateRecommendations results =
     (let heavy = (case dependencyAnalysis results of None \<Rightarrow> [] | Some d \<Rightarrow> heavyDependencies d);
          large = (case codeAnalysis results of None \<Rightarrow> [] | Some c \<Rightarrow> largeFiles c);
          styles = (case codeAnalysis results of None \<Rightarrow> 0 | Some c \<Rightarrow> inlineStyles c);
          consoles = (case codeAnalysis results of None \<Rightarrow> 0 | Some c \<Rightarrow> consoleStatements c);
          r1 = (if length heavy > 0
                then [(recommend ''Dependencies'' ''High'' ''Heavy dependencies detected''
                        ''Consider lighter alternatives or tree-shaking'')\<lparr>dependencies := Some heavy\<rparr>]
                else []);
          r2 = (if length large > 0
                then r1 @ [(recommend ''Code Splitting'' ''High'' ''Large files detected''
                        ''Implement code splitting and lazy loading'')\<lparr>files := Some large\<rparr>]
                else r1);
          r3 = (if styles > 10
                then r2 @ [(recommend ''Styling'' ''Medium'' ''Excessive inline styles''
                        ''Extract styles to CSS modules or styled components'')\<lparr>count := Some styles\<rparr>]
                else r2);
          r4 = (if consoles > 0
                then r3 @ [(recommend ''Production'' ''Medium'' ''Console statements in code''
                        ''Remove console statements in production builds'')\<lparr>count := Some consoles\<rparr>]
                else r3)
      in (results\<lparr>recommendations := addFrameworkSpecificRecommendations results r4\<rparr>, None))"

text \<open>\<^verbatim>\<open>fs.writeFileSync\<close> of a report or a generated configuration into the project
  root.\<close>

definition writeFileSync :: "env \<Rightarrow> error option" where
  "writeFileSync e = (if writable e then None else Some EACCES)"

text \<open>\<^verbatim>\<open>printReport\<close> prints and then calls \<^verbatim>\<open>saveReport\<close>, which writes
  \<^verbatim>\<open>performance-report.json\<close>.\<close>

definition pa_printReport :: "env \<Rightarrow> pa_results phase" where
  "pa_printReport e results = (results, writeFileSync e)"

definition PerformanceAnalyzer_analyze :: "env \<Rightarrow> fpath \<Rightarrow> pa_results \<times> error option" where
  "PerformanceAnalyzer_analyze e projectRoot =
     run_phases
       [detectProjectType e projectRoot,
        analyzeDependencies e projectRoot,
        analyzeCodePatterns e projectRoot,
        analyzeBundleSize e projectRoot,
        generateRecommendations,
        pa_printReport e]
       pa_initial"

subsection \<open>BundleAnalyzer (bundle-analyzer.js)\<close>

text \<open>The bundler that \<^verbatim>\<open>detectBundler\<close> records: \<^verbatim>\<open>{ name, configFile, hasConfig }\<close>,
  \<^verbatim>\<open>configFile\<close> being set only when a configuration file was found.\<close>

record bundler_info =
  bundler_name :: string
  configFile :: "string option"
  hasConfig :: bool

text \<open>
  A \<^verbatim>\<open>fileInfo\<close> of \<^verbatim>\<open>analyzeBuildDirectory\<close>: the path relative to the project root
  and the size in bytes. The third field of the source, \<^verbatim>\<open>sizeKB\<close>, is a function of
  the size (\<open>sizeKB100\<close> gives it in hundredths, \<^verbatim>\<open>Math.round(size / 1024 * 100)\<close>).
\<close>

record fileInfo =
  path :: fpath
  size_bytes :: nat

definition sizeKB100 :: "fileInfo \<Rightarrow> nat" where
  "sizeKB100 f = (size_bytes f * 100 + 512) div 1024"

record build_analysis =
  totalSize :: nat
  fileCount :: nat
  jsFiles :: "fileInfo list"
  cssFiles :: "fileInfo list"
  assetFiles :: "fileInfo list"
  largestFiles :: "fileInfo list"

text \<open>A recommendation of \<^verbatim>\<open>analyzeChunking\<close>:
  \<^verbatim>\<open>{ type: 'code-splitting', file, size, message }\<close>.\<close>

record chunk_recommendation =
  rec_type :: string
  rec_file :: fpath
  rec_sizeKB100 :: nat
  rec_message :: string

record chunk_analysis =
  hasCodeSplitting :: bool
  chunkFiles :: "fileInfo list"
  vendorChunks :: "fileInfo list"
  entryChunks :: "fileInfo list"
  chunk_recommendations :: "chunk_recommendation list"

record compression_analysis =
  gzip :: bool
  brotli :: bool
  minification :: bool

text \<open>
  \<^verbatim>\<open>this.results\<close> of a BundleAnalyzer. \<^verbatim>\<open>buildSize\<close> maps the build directories
  that were analyzed to their analysis, in insertion order. \<^verbatim>\<open>treeshaking\<close> holds
  the one field that is ever read, \<^verbatim>\<open>enabled\<close>. Sections are \<open>None\<close> while they are
  \<^verbatim>\<open>null\<close> or the empty object of the constructor.
\<close>

record ba_results =
  bundler :: "bundler_info option"
  buildSize :: "(string \<times> build_analysis) list"
  chunkAnalysis :: "chunk_analysis option"
  optimizations :: "recommendation list"
  treeshaking :: "bool option"
  compression :: "compression_analysis option"

definition ba_initial :: ba_results where
  "ba_initial =
     \<lparr>bundler = None, buildSize = [], chunkAnalysis = None, optimizations = [],
      treeshaking = None, compression = None\<rparr>"

definition bundlers :: "(string \<times> string \<times> string) list" where
  "bundlers =
     [(''webpack'', ''webpack.config.js'', ''webpack.config.ts''),
      (''vite'', ''vite.config.js'', ''vite.config.ts''),
      (''rollup'', ''rollup.config.js'', ''rollup.config.ts''),
      (''parcel'', ''.parcelrc'', ''parcel.config.js''),
      (''esbuild'', ''esbuild.config.js'', ''build.js''),
      (''snowpack'', ''snowpack.config.js'', ''snowpack.config.mjs'')]"

text \<open>The first loop of \<^verbatim>\<open>detectBundler\<close>: the first bundler of the table one of whose
  configuration files exists.\<close>

fun find_bundler_config :: "env \<Rightarrow> fpath \<Rightarrow> (string \<times> string \<times> string) list \<Rightarrow> bundler_info option" where
  "find_bundler_config e projectRoot [] = None"
| "find_bundler_config e projectRoot ((name, config, alt) # rest) =
     (if existsSync e projectRoot (path_join projectRoot config)
         \<or> existsSync e projectRoot (path_join projectRoot alt)
      then Some \<lparr>bundler_name = name,
                 configFile = Some (if existsSync e projectRoot (path_join projectRoot config)
                                    then config else alt),
                 hasConfig = True\<rparr>
      else find_bundler_config e projectRoot rest)"

definition inferred :: "string \<Rightarrow> bundler_info" where
  "inferred name = \<lparr>bundler_name = name, configFile = None, hasConfig = False\<rparr>"

definition detectBundler :: "env \<Rightarrow> fpath \<Rightarrow> ba_results phase" where
  "detectBundler e projectRoot results =
     (case find_bundler_config e projectRoot bundlers of
        Some b \<Rightarrow> (results\<lparr>bundler := Some b\<rparr>, None)
      | None \<Rightarrow>
          (if existsSync e projectRoot (manifest_path projectRoot)
           then (case read_manifest e of
                   Inl err \<Rightarrow> (results, Some err)
                 | Inr packageJson \<Rightarrow>
                     (let build = (\<lambda>t. case map_of (case pkg_scripts packageJson of
                                                      None \<Rightarrow> [] | Some s \<Rightarrow> s) ''build'' of
                                         None \<Rightarrow> False
                                       | Some b \<Rightarrow> b \<noteq> [] \<and> str_includes b t);
                          dep = (\<lambda>k. truthy (spread_lookup (pkg_dependencies packageJson)
                                      (pkg_devDependencies packageJson) k))
                      in (results\<lparr>bundler := Some
                            (if build ''vite'' then inferred ''vite''
                             else if build ''webpack'' then inferred ''webpack''
                             else if dep ''@parcel/core'' \<or> dep ''parcel'' then inferred ''parcel''
                             else if dep ''rollup'' then inferred ''rollup''
                             else inferred ''unknown'')\<rparr>, None)))
           else (results, None)))"

text \<open>
  \<^verbatim>\<open>getAllFiles(dirPath)\<close>. As for \<open>findFiles\<close>, the recursion follows the tree, and
  the exception of a \<^verbatim>\<open>readdirSync\<close> ends every enclosing call.
\<close>

fun getAllFiles :: "fpath \<Rightarrow> fsnode \<Rightarrow> error + fpath list"
and getAllFiles_entries :: "fpath \<Rightarrow> (string \<times> fsnode) list \<Rightarrow> error + fpath list" where
  "getAllFiles dirPath (Dir r es) = (if r then getAllFiles_entries dirPath es else Inl EACCES)"
| "getAllFiles dirPath (File sz c) = Inl ENOTDIR"
| "getAllFiles dirPath Other = Inl ENOTDIR"
| "getAllFiles_entries dirPath [] = Inr []"
| "getAllFiles_entries dirPath ((name, node) # rest) =
     (if isDirectory node
      then (case getAllFiles (path_join dirPath name) node of
              Inl err \<Rightarrow> Inl err
            | Inr found \<Rightarrow>
                (case getAllFiles_entries dirPath rest of
                   Inl err \<Rightarrow> Inl err
                 | Inr others \<Rightarrow> Inr (found @ others)))
      else if isFile node
      then (case getAllFiles_entries dirPath rest of
              Inl err \<Rightarrow> Inl err
            | Inr others \<Rightarrow> Inr (path_join dirPath name # others))
      else getAllFiles_entries dirPath rest)"

definition getAllFiles_at :: "env \<Rightarrow> fpath \<Rightarrow> fpath \<Rightarrow> error + fpath list" where
  "getAllFiles_at e projectRoot dirPath =
     (case node_at e projectRoot dirPath of
        None \<Rightarrow> Inl ENOENT
      | Some node \<Rightarrow> getAllFiles dirPath node)"

definition js_extensions :: "string list" where
  "js_extensions = [''.js'', ''.mjs'', ''.jsx'', ''.ts'', ''.tsx'']"

definition css_extensions :: "string list" where
  "css_extensions = [''.css'', ''.scss'', ''.sass'', ''.less'']"

text \<open>The \<^verbatim>\<open>for (const file of files)\<close> loop of \<^verbatim>\<open>analyzeBuildDirectory\<close>; a
  \<^verbatim>\<open>statSync\<close> that throws ends it.\<close>

fun analyze_files :: "env \<Rightarrow> fpath \<Rightarrow> build_analysis \<Rightarrow> fpath list \<Rightarrow> error + build_analysis" where
  "analyze_files e projectRoot analysis [] = Inr analysis"
| "analyze_files e projectRoot analysis (file # rest) =
     (case statSync e projectRoot file of
        Inl err \<Rightarrow> Inl err
      | Inr sz \<Rightarrow>
          (let ext = toLowerCase (path_extname (path_basename file));
               fileInfo = \<lparr>path = path_relative projectRoot file, size_bytes = sz\<rparr>;
               a1 = analysis\<lparr>totalSize := totalSize analysis + sz,
                             fileCount := fileCount analysis + 1\<rparr>;
               a2 = (if ext \<in> set js_extensions then a1\<lparr>jsFiles := jsFiles a1 @ [fileInfo]\<rparr>
                     else if ext \<in> set css_extensions then a1\<lparr>cssFiles := cssFiles a1 @ [fileInfo]\<rparr>
                     else a1\<lparr>assetFiles := assetFiles a1 @ [fileInfo]\<rparr>);
               a3 = (if sz > 100000 then a2\<lparr>largestFiles := largestFiles a2 @ [fileInfo]\<rparr> else a2)
           in analyze_files e projectRoot a3 rest))"

text \<open>\<^verbatim>\<open>xs.sort((a, b) => b.size - a.size)\<close>: descending by size, and stable.\<close>

definition sort_by_size :: "fileInfo list \<Rightarrow> fileInfo list" where
  "sort_by_size xs = sort_key (\<lambda>f. - int (size_bytes f)) xs"

definition analyzeBuildDirectory :: "env \<Rightarrow> fpath \<Rightarrow> fpath \<Rightarrow> error + build_analysis" where
  "analyzeBuildDirectory e projectRoot dirPath =
     (case getAllFiles_at e projectRoot dirPath of
        Inl err \<Rightarrow> Inl err
      | Inr found \<Rightarrow>
          (case analyze_files e projectRoot
                  \<lparr>totalSize = 0, fileCount = 0, jsFiles = [], cssFiles = [], assetFiles = [],
                   largestFiles = []\<rparr> found of
             Inl err \<Rightarrow> Inl err
           | Inr analysis \<Rightarrow>
               Inr (analysis\<lparr>jsFiles := sort_by_size (jsFiles analysis),
                             cssFiles := sort_by_size (cssFiles analysis),
                             largestFiles := sort_by_size (largestFiles analysis)\<rparr>)))"

definition buildDirs :: "string list" where
  "buildDirs = [''dist'', ''build'', ''public'', ''out'', ''.next'']"

text \<open>The loop of \<^verbatim>\<open>analyzeBuildOutput\<close> over the build directories that exist. A
  directory whose analysis throws ends the loop; the analyses stored before stay.\<close>

fun analyze_builds :: "env \<Rightarrow> fpath \<Rightarrow> string list \<Rightarrow> ba_results phase" where
  "analyze_builds e projectRoot [] results = (results, None)"
| "analyze_builds e projectRoot (buildDir # rest) results =
     (case analyzeBuildDirectory e projectRoot (path_join projectRoot buildDir) of
        Inl err \<Rightarrow> (results, Some err)
      | Inr analysis \<Rightarrow>
          analyze_builds e projectRoot rest
            (results\<lparr>buildSize := AList.update buildDir analysis (buildSize results)\<rparr>))"

definition analyzeBuildOutput :: "env \<Rightarrow> fpath \<Rightarrow> ba_results phase" where
  "analyzeBuildOutput e projectRoot results =
     (let foundBuilds = filter (\<lambda>dir. existsSync e projectRoot (path_join projectRoot dir)) buildDirs
      in if length foundBuilds = 0 then (results, None)
         else analyze_builds e projectRoot foundBuilds results)"

text \<open>
  The test of the regular expression \<^verbatim>\<open>/\.[a-f0-9]{8,}\.js$/\<close>: the name ends with
  \<^verbatim>\<open>.js\<close>, and the longest run of the characters \<^verbatim>\<open>a\<close> to \<^verbatim>\<open>f\<close> and \<^verbatim>\<open>0\<close> to
  \<^verbatim>\<open>9\<close> just before that ending has at least 8 characters and a dot in front of it.
\<close>

definition hex_lower :: "char \<Rightarrow> bool" where
  "hex_lower c = (c \<in> set ''abcdef0123456789'')"

definition hash_js_name :: "string \<Rightarrow> bool" where
  "hash_js_name filename =
     (endsWith filename ''.js'' \<and>
      (let before = rev (take (length filename - 3) filename);
           run = takeWhile hex_lower before
       in length run \<ge> 8 \<and> (case dropWhile hex_lower before of
                               [] \<Rightarrow> False
                             | c # cs \<Rightarrow> c = CHR ''.'')))"

text \<open>The condition under which \<^verbatim>\<open>analyzeChunking\<close> takes a file for a chunk.\<close>

definition is_chunk_name :: "string \<Rightarrow> bool" where
  "is_chunk_name filename =
     (str_includes filename ''chunk'' \<or> str_includes filename ''vendor''
      \<or> str_includes filename ''common'' \<or> hash_js_name filename)"

text \<open>The first pass of \<^verbatim>\<open>analyzeChunking\<close>, over one file.\<close>

definition classify_chunk :: "chunk_analysis \<Rightarrow> fileInfo \<Rightarrow> chunk_analysis" where
  "classify_chunk analysis file =
     (let filename = path_basename (path file)
      in if is_chunk_name filename
         then (let a1 = analysis\<lparr>hasCodeSplitting := True,
                                 chunkFiles := chunkFiles analysis @ [file]\<rparr>
               in if str_includes filename ''vendor'' \<or> str_includes filename ''node_modules''
                  then a1\<lparr>vendorChunks := vendorChunks a1 @ [file]\<rparr>
                  else a1)
         else analysis)"

text \<open>The second pass, over one file:
  \<^verbatim>\<open>file.size > 500000 && !analysis.chunkFiles.find(c => c.path === file.path)\<close>.\<close>

definition check_entry :: "chunk_analysis \<Rightarrow> fileInfo \<Rightarrow> chunk_analysis" where
  "check_entry analysis file =
     (if size_bytes file > 500000 \<and> find (\<lambda>c. path c = path file) (chunkFiles analysis) = None
      then analysis\<lparr>chunk_recommendations := chunk_recommendations analysis @
             [\<lparr>rec_type = ''code-splitting'', rec_file = path file,
               rec_sizeKB100 = sizeKB100 file,
               rec_message = ''Large entry file detected - consider code splitting''\<rparr>]\<rparr>
      else analysis)"

text \<open>The script files both passes visit: the \<^verbatim>\<open>jsFiles\<close> of every build analysis, in
  the order of \<^verbatim>\<open>Object.values(this.results.buildSize)\<close>.\<close>

definition all_jsFiles :: "ba_results \<Rightarrow> fileInfo list" where
  "all_jsFiles results = concat (map (\<lambda>(buildDir, analysis). jsFiles analysis) (buildSize results))"

definition chunking :: "fileInfo list \<Rightarrow> chunk_analysis" where
  "chunking js =
     foldl check_entry
       (foldl classify_chunk
          \<lparr>hasCodeSplitting = False, chunkFiles = [], vendorChunks = [], entryChunks = [],
           chunk_recommendations = []\<rparr> js)
       js"

definition analyzeChunking :: "ba_results phase" where
  "analyzeChunking results =
     (results\<lparr>chunkAnalysis := Some (chunking (all_jsFiles results))\<rparr>, None)"

text \<open>
  \<^verbatim>\<open>checkTreeShaking\<close>. The configuration file is read inside a \<^verbatim>\<open>try\<close>, the
  manifest is not.
\<close>

definition checkTreeShaking :: "env \<Rightarrow> fpath \<Rightarrow> ba_results phase" where
  "checkTreeShaking e projectRoot results =
     (let fromConfig =
            (case bundler results of
               None \<Rightarrow> False
             | Some b \<Rightarrow>
                 (case configFile b of
                    None \<Rightarrow> False
                  | Some f \<Rightarrow>
                      (case readFileSync e projectRoot (path_join projectRoot f) of
                         Inl err \<Rightarrow> False
                       | Inr configContent \<Rightarrow>
                           str_includes configContent ''sideEffects''
                           \<or> str_includes configContent ''usedExports''
                           \<or> str_includes configContent (''mode: '' @ [CHR 0x22] @ ''production''
                                @ [CHR 0x22]))))
      in if existsSync e projectRoot (manifest_path projectRoot)
         then (case read_manifest e of
                 Inl err \<Rightarrow> (results, Some err)
               | Inr packageJson \<Rightarrow>
                   (results\<lparr>treeshaking := Some (fromConfig \<or> pkg_sideEffects packageJson)\<rparr>, None))
         else (results\<lparr>treeshaking := Some fromConfig\<rparr>, None))"

text \<open>
  \<^verbatim>\<open>content.length\<close> counts UTF-16 code units, the strings of the model hold the
  UTF-8 bytes of the file, taken to be well formed: a byte below 128 or a lead byte
  of a sequence of two or three bytes stands for one unit, the lead byte of a
  sequence of four bytes for two (a surrogate pair), and a continuation byte for
  none.
\<close>

definition utf16_units :: "char \<Rightarrow> nat" where
  "utf16_units c =
     (let n = (of_char c :: nat)
      in if n < 128 then 1 else if n < 192 then 0 else if n < 240 then 1 else 2)"

definition js_length :: "string \<Rightarrow> nat" where
  "js_length s = sum_list (map utf16_units s)"

text \<open>
  \<^verbatim>\<open>checkCompression\<close>. The minification heuristic compares
  \<^verbatim>\<open>content.length / content.split('\n').length\<close> with 500; a file that cannot be read
  is passed over.
\<close>

definition looks_minified :: "env \<Rightarrow> fpath \<Rightarrow> fileInfo \<Rightarrow> bool" where
  "looks_minified e projectRoot file =
     (case readFileSync e projectRoot (projectRoot @ path file) of
        Inl err \<Rightarrow> False
      | Inr content \<Rightarrow> js_length content > 500 * length (split_lines content))"

definition checkCompression :: "env \<Rightarrow> fpath \<Rightarrow> ba_results phase" where
  "checkCompression e projectRoot results =
     (let allFiles = concat (map (\<lambda>(buildDir, a). jsFiles a @ cssFiles a @ assetFiles a)
                               (buildSize results));
          sampled = concat (map (\<lambda>(buildDir, a). take 3 (jsFiles a)) (buildSize results))
      in (results\<lparr>compression := Some
            \<lparr>gzip = list_ex (\<lambda>f. endsWith (path_string (path f)) ''.gz'') allFiles,
             brotli = list_ex (\<lambda>f. endsWith (path_string (path f)) ''.br'') allFiles,
             minification = list_ex (looks_minified e projectRoot) sampled\<rparr>\<rparr>, None))"

definition build_optimizations :: "string \<times> build_analysis \<Rightarrow> recommendation list" where
  "build_optimizations ba =
     (let buildDir = fst ba; analysis = snd ba
      in (if totalSize analysis > 5000000
          then [(recommend ''Bundle Size'' ''High'' (''Large bundle size in '' @ buildDir)
                   ''Implement code splitting and lazy loading'')
                  \<lparr>size_label := Some (totalSize analysis)\<rparr>]
          else []) @
         map (\<lambda>file. (recommend ''Code Splitting'' ''High''
                        (''Large JavaScript file: '' @ path_string (path file))
                        ''Split this file into smaller chunks'')
                       \<lparr>size_label := Some (size_bytes file)\<rparr>)
           (filter (\<lambda>file. size_bytes file > 1000000) (take 3 (jsFiles analysis))))"

definition addBundlerSpecificOptimizations ::
  "ba_results \<Rightarrow> recommendation list \<Rightarrow> recommendation list" where
  "addBundlerSpecificOptimizations results opts =
     (case bundler results of
        None \<Rightarrow> opts
      | Some b \<Rightarrow>
          (if bundler_name b = ''webpack''
           then opts @ [recommend ''Webpack'' ''Medium'' ''Webpack optimizations''
                  ''Use SplitChunksPlugin, optimize chunks, enable production mode'']
           else if bundler_name b = ''vite''
           then opts @ [recommend ''Vite'' ''Low'' ''Vite optimizations''
                  ''Configure build.rollupOptions for better chunking'']
           else if bundler_name b = ''rollup''
           then opts @ [recommend ''Rollup'' ''Medium'' ''Rollup optimizations''
                  ''Use rollup-plugin-terser for minification, configure external dependencies'']
           else opts))"

definition generateOptimizations :: "ba_results phase" where
  "generateOptimizations results =
     (let o1 = concat (map build_optimizations (buildSize results));
          o2 = (if treeshaking results \<noteq> Some True
                then o1 @ [recommend ''Tree Shaking'' ''Medium'' ''Tree-shaking not detected''
                       ''Enable tree-shaking to remove unused code'']
                else o1);
          o3 = (if \<not> (case compression results of None \<Rightarrow> False | Some c \<Rightarrow> gzip c)
                then o2 @ [recommend ''Compression'' ''Medium'' ''Gzip compression not enabled''
                       ''Enable gzip compression on your server'']
                else o2);
          o4 = (if \<not> (case compression results of None \<Rightarrow> False | Some c \<Rightarrow> brotli c)
                then o3 @ [recommend ''Compression'' ''Low'' ''Brotli compression not enabled''
                       ''Enable Brotli compression for better compression ratios'']
                else o3)
      in (results\<lparr>optimizations := addBundlerSpecificOptimizations results o4\<rparr>, None))"

text \<open>\<^verbatim>\<open>printReport\<close> ends with \<^verbatim>\<open>saveReport\<close>, which writes
  \<^verbatim>\<open>bundle-analysis-report.json\<close>; \<^verbatim>\<open>generateConfigs\<close> writes an optimized
  configuration for webpack, vite and rollup.\<close>

definition ba_printReport :: "env \<Rightarrow> ba_results phase" where
  "ba_printReport e results = (results, writeFileSync e)"

definition generateConfigs :: "env \<Rightarrow> ba_results phase" where
  "generateConfigs e results =
     (case bundler results of
        None \<Rightarrow> (results, None)
      | Some b \<Rightarrow>
          (if bundler_name b \<in> {''webpack'', ''vite'', ''rollup''}
           then (results, writeFileSync e)
           else (results, None)))"

definition BundleAnalyzer_analyze :: "env \<Rightarrow> fpath \<Rightarrow> ba_results \<times> error option" where
  "BundleAnalyzer_analyze e projectRoot =
     run_phases
       [detectBundler e projectRoot,
        analyzeBuildOutput e projectRoot,
        analyzeChunking,
        checkTreeShaking e projectRoot,
        checkCompression e projectRoot,
        generateOptimizations,
        ba_printReport e,
        generateConfigs e]
       ba_initial"

subsection \<open>PerformanceAnalysisRunner (run-performance-analysis.js)\<close>

record options =
  runPerformanceAnalysis :: bool
  runBundleAnalysis :: bool
  generateReport :: bool
  outputFormat :: string

text \<open>The options the command line starts from: the constructor's defaults.\<close>

definition default_options :: options where
  "default_options =
     \<lparr>runPerformanceAnalysis = True, runBundleAnalysis = True, generateReport = True,
      outputFormat = ''console''\<rparr>"

definition parse_arg :: "options \<Rightarrow> string \<Rightarrow> options" where
  "parse_arg opts arg =
     (let o1 = (if arg = ''--json'' then opts\<lparr>outputFormat := ''json''\<rparr> else opts);
          o2 = (if arg = ''--html'' then o1\<lparr>outputFormat := ''html''\<rparr> else o1);
          o3 = (if arg = ''--performance-only'' then o2\<lparr>runBundleAnalysis := False\<rparr> else o2);
          o4 = (if arg = ''--bundle-only'' then o3\<lparr>runPerformanceAnalysis := False\<rparr> else o3)
      in if arg = ''--no-report'' then o4\<lparr>generateReport := False\<rparr> else o4)"

definition parse_args :: "string list \<Rightarrow> options" where
  "parse_args args = foldl parse_arg default_options args"

text \<open>The \<^verbatim>\<open>results\<close> object of \<^verbatim>\<open>runComplete\<close>; \<^verbatim>\<open>performance\<close> and \<^verbatim>\<open>bundle\<close> stay
  \<^verbatim>\<open>null\<close> (\<open>None\<close>) when the analysis is switched off.\<close>

record run_results =
  performance :: "pa_results option"
  bundle_results :: "ba_results option"

text \<open>The object \<^verbatim>\<open>generateSummary\<close> builds; each aggregated recommendation carries its
  \<^verbatim>\<open>source\<close> tag.\<close>

record summary =
  totalIssues :: nat
  criticalIssues :: nat
  summary_recommendations :: "(string \<times> recommendation) list"
  score :: int

text \<open>
  The body of the two \<^verbatim>\<open>forEach\<close> callbacks of \<^verbatim>\<open>generateSummary\<close> (they differ in
  the source tag only):
  \<^verbatim>\<open>
  summary.totalIssues++;
  if (rec.priority === 'High') { summary.criticalIssues++; summary.score -= 15; }
  else if (rec.priority === 'Medium') { summary.score -= 10; }
  else { summary.score -= 5; }
  summary.recommendations.push({ source: 'Performance', ...rec });
  \<close>
\<close>

definition aggregate :: "string \<Rightarrow> summary \<Rightarrow> recommendation \<Rightarrow> summary" where
  "aggregate source s r =
     (let s1 = s\<lparr>totalIssues := totalIssues s + 1\<rparr>;
          s2 = (if priority r = ''High''
                then s1\<lparr>criticalIssues := criticalIssues s1 + 1, score := score s1 - 15\<rparr>
                else if priority r = ''Medium''
                then s1\<lparr>score := score s1 - 10\<rparr>
                else s1\<lparr>score := score s1 - 5\<rparr>)
      in s2\<lparr>summary_recommendations := summary_recommendations s2 @ [(source, r)]\<rparr>)"

definition generateSummary :: "run_results \<Rightarrow> summary" where
  "generateSummary results =
     (let s0 = \<lparr>totalIssues = 0, criticalIssues = 0, summary_recommendations = [], score = 100\<rparr>;
          s1 = (case performance results of
                  None \<Rightarrow> s0
                | Some p \<Rightarrow> foldl (aggregate ''Performance'') s0 (recommendations p));
          s2 = (case bundle_results results of
                  None \<Rightarrow> s1
                | Some b \<Rightarrow> foldl (aggregate ''Bundle'') s1 (optimizations b))
      in s2\<lparr>score := max 0 (score s2)\<rparr>)"

text \<open>
  \<^verbatim>\<open>outputConsole\<close> prints, and on the way sorts \<^verbatim>\<open>summary.recommendations\<close> in
  place, with the comparator \<^verbatim>\<open>priorityOrder[b.priority] - priorityOrder[a.priority]\<close>:
  descending by rank, and stable. Every recommendation the two analyzers build has
  one of the three priorities of the table; a priority outside of it, for which the
  comparator of the source yields \<^verbatim>\<open>NaN\<close>, has the rank 0 here. The score bar repeats
  a character \<^verbatim>\<open>Math.round(score / 100 * 40)\<close> and 40 minus that many times, which is
  defined for a score from 0 to 100.
\<close>

definition priorityOrder :: "string \<Rightarrow> int" where
  "priorityOrder p =
     (if p = ''High'' then 3 else if p = ''Medium'' then 2 else if p = ''Low'' then 1 else 0)"

definition outputConsole :: "summary \<Rightarrow> summary" where
  "outputConsole s =
     s\<lparr>summary_recommendations :=
         sort_key (\<lambda>sr. - priorityOrder (priority (snd sr))) (summary_recommendations s)\<rparr>"

text \<open>
  \<^verbatim>\<open>outputResults\<close>: the JSON and the HTML format write a file into the working
  directory and leave the summary as it is, the console format is
  \<^verbatim>\<open>outputConsole\<close>.
\<close>

definition outputResults :: "env \<Rightarrow> options \<Rightarrow> summary \<Rightarrow> error + summary" where
  "outputResults e opts s =
     (if outputFormat opts = ''json'' \<or> outputFormat opts = ''html''
      then (case cwd e of
              None \<Rightarrow> Inl ENOENT
            | Some d \<Rightarrow> (case writeFileSync e of Some err \<Rightarrow> Inl err | None \<Rightarrow> Inr s))
      else Inr (outputConsole s))"

text \<open>
  \<^verbatim>\<open>runComplete\<close>. The constructors of the two analyzers call \<^verbatim>\<open>process.cwd()\<close>;
  \<^verbatim>\<open>analyze\<close> itself returns normally whatever happens inside it, and the runner
  takes the analyzer's \<^verbatim>\<open>results\<close> as they are then. \<open>finish_run\<close> is the rest of the
  \<^verbatim>\<open>try\<close> block: the summary and the output; the summary returned is the one the
  output has left. The \<^verbatim>\<open>catch\<close> of \<^verbatim>\<open>runComplete\<close> throws the error again.
\<close>

definition finish_run :: "env \<Rightarrow> options \<Rightarrow> run_results \<Rightarrow> error + (run_results \<times> summary)" where
  "finish_run e opts results =
     (let summary = generateSummary results
      in if generateReport opts
         then (case outputResults e opts summary of
                 Inl err \<Rightarrow> Inl err
               | Inr printed \<Rightarrow> Inr (results, printed))
         else Inr (results, summary))"

definition runComplete :: "env \<Rightarrow> options \<Rightarrow> error + (run_results \<times> summary)" where
  "runComplete e opts =
     (case cwd e of
        None \<Rightarrow>
          (if runPerformanceAnalysis opts \<or> runBundleAnalysis opts then Inl ENOENT
           else finish_run e opts \<lparr>performance = None, bundle_results = None\<rparr>)
      | Some projectRoot \<Rightarrow>
          finish_run e opts
            \<lparr>performance =
               (if runPerformanceAnalysis opts
                then Some (fst (PerformanceAnalyzer_analyze e projectRoot)) else None),
             bundle_results =
               (if runBundleAnalysis opts
                then Some (fst (BundleAnalyzer_analyze e projectRoot)) else None)\<rparr>)"

text \<open>The command line: \<^verbatim>\<open>process.exit(0)\<close> when the promise of \<^verbatim>\<open>runComplete\<close>
  resolves, \<^verbatim>\<open>process.exit(1)\<close> when it rejects.\<close>

definition cli_exit_status :: "env \<Rightarrow> string list \<Rightarrow> nat" where
  "cli_exit_status e args =
     (case runComplete e (parse_args args) of
        Inr r \<Rightarrow> 0
      | Inl err \<Rightarrow> 1)"

subsection \<open>Notions used to state the properties\<close>

subsubsection \<open>The score\<close>

text \<open>The recommendations a summary aggregates, in the order it visits them.\<close>

definition aggregated :: "run_results \<Rightarrow> recommendation list" where
  "aggregated results =
     (case performance results of None \<Rightarrow> [] | Some p \<Rightarrow> recommendations p) @
     (case bundle_results results of None \<Rightarrow> [] | Some b \<Rightarrow> optimizations b)"

text \<open>The penalty of one recommendation, by its priority.\<close>

definition penalty :: "recommendation \<Rightarrow> int" where
  "penalty r = (if priority r = ''High'' then 15 else if priority r = ''Medium'' then 10 else 5)"

subsubsection \<open>Phases and runs\<close>

text \<open>A phase that leaves the project type as it is, whether it throws or not.\<close>

definition keeps_projectType :: "pa_results phase \<Rightarrow> bool" where
  "keeps_projectType p = (\<forall>s. projectType (fst (p s)) = projectType s)"

text \<open>
  The results of a project without manifest after the dependency, the code and the
  bundle phase, when the walk has found \<open>codeFiles\<close>: the project type \<^verbatim>\<open>unknown\<close>, no
  dependency analysis, the patterns of the files scanned, and a bundle analysis
  without build scripts.
\<close>

definition scanned_project :: "env \<Rightarrow> fpath \<Rightarrow> fpath list \<Rightarrow> pa_results" where
  "scanned_project e projectRoot codeFiles =
     \<lparr>projectType = Some ''unknown'',
      dependencyAnalysis = None,
      codeAnalysis = Some (foldl (scan_file e projectRoot) no_patterns codeFiles),
      bundleAnalysis = Some
        \<lparr>hasWebpack = existsSync e projectRoot (path_join projectRoot ''webpack.config.js''),
         hasVite = existsSync e projectRoot (path_join projectRoot ''vite.config.js''),
         hasRollup = existsSync e projectRoot (path_join projectRoot ''rollup.config.js''),
         hasParcel = existsSync e projectRoot (path_join projectRoot ''.parcelrc''),
         buildScripts = []\<rparr>,
      recommendations = []\<rparr>"

text \<open>A project in a writable, empty directory, with the manifest \<open>m\<close>.\<close>

definition bare_project :: "manifest \<Rightarrow> env" where
  "bare_project m = \<lparr>cwd = Some [''project''], tree = Dir True [], manifest = m, writable = True\<rparr>"

text \<open>
  The two ways in which \<^verbatim>\<open>runComplete\<close> throws: \<^verbatim>\<open>process.cwd()\<close> fails in the
  constructor of an analyzer, or the JSON or HTML report cannot be written.
\<close>

definition run_fails :: "env \<Rightarrow> options \<Rightarrow> bool" where
  "run_fails e opts =
     ((cwd e = None \<and> (runPerformanceAnalysis opts \<or> runBundleAnalysis opts))
      \<or> (generateReport opts \<and> (outputFormat opts = ''json'' \<or> outputFormat opts = ''html'')
          \<and> (cwd e = None \<or> \<not> writable e)))"

subsubsection \<open>Declared dependencies\<close>

text \<open>The finding of one group: the declared names that are members of it.\<close>

definition group_found :: "string list \<Rightarrow> (string \<times> string) list \<Rightarrow> string list" where
  "group_found grp deps = filter (\<lambda>dep. dep \<in> set grp) (map fst deps)"

text \<open>The first of the \<open>duplicateGroups\<close>, and the three others.\<close>

definition date_group :: "string list" where
  "date_group = [''moment'', ''dayjs'', ''date-fns'']"

definition other_groups :: "string list list" where
  "other_groups =
     [[''lodash'', ''underscore'', ''ramda''],
      [''axios'', ''fetch'', ''superagent''],
      [''uuid'', ''shortid'', ''nanoid'']]"

text \<open>Two \<^verbatim>\<open>dependencies\<close> maps with \<^verbatim>\<open>moment\<close> and \<^verbatim>\<open>date-fns\<close>; the second has two
  members of the utility group as well.\<close>

definition date_deps :: "(string \<times> string) list" where
  "date_deps = [(''moment'', ''^2.29.0''), (''react'', ''^18.0.0''), (''date-fns'', ''^2.0.0'')]"

definition date_lodash_deps :: "(string \<times> string) list" where
  "date_lodash_deps =
     [(''moment'', ''^2.29.0''), (''date-fns'', ''^2.0.0''), (''lodash'', ''^4.17.0''),
      (''ramda'', ''^0.29.0'')]"

text \<open>The names a dependency map of the manifest declares.\<close>

definition declared :: "(string \<times> string) list option \<Rightarrow> string set" where
  "declared m = (case m of None \<Rightarrow> {} | Some d \<Rightarrow> fst ` set d)"

text \<open>A project that declares \<^verbatim>\<open>lodash\<close> and \<^verbatim>\<open>underscore\<close> under
  \<^verbatim>\<open>devDependencies\<close> only.\<close>

definition dev_only_project :: env where
  "dev_only_project =
     \<lparr>cwd = Some [''project''], tree = Dir True [],
      manifest = Manifest
        \<lparr>pkg_dependencies = Some [(''react'', ''^18.0.0'')],
         pkg_devDependencies = Some [(''lodash'', ''^4.17.0''), (''underscore'', ''^1.13.0'')],
         pkg_scripts = None, pkg_sideEffects = False\<rparr>,
      writable = True\<rparr>"

subsubsection \<open>Lines and their patterns\<close>

text \<open>The lines of a file with their indexes, as \<^verbatim>\<open>lines.forEach((line, index) => ...)\<close>
  visits them.\<close>

definition numbered_lines :: "string \<Rightarrow> (nat \<times> string) list" where
  "numbered_lines content = zip [0..<length (split_lines content)] (split_lines content)"

text \<open>The three tests \<^verbatim>\<open>analyzeCodePatterns\<close> makes on a line, and the entry it
  pushes for a line with a DOM query.\<close>

definition inline_style_line :: "string \<Rightarrow> bool" where
  \<open>inline_style_line line = (str_includes line ''style={{'' \<or> str_includes line ''style="{'')\<close>

definition console_line :: "string \<Rightarrow> bool" where
  "console_line line = str_includes line ''console.''"

definition dom_query_line :: "string \<Rightarrow> bool" where
  "dom_query_line line =
     (str_includes line ''document.querySelector'' \<or> str_includes line ''getElementById'')"

definition dom_issue :: "fpath \<Rightarrow> fpath \<Rightarrow> nat \<times> string \<Rightarrow> code_issue" where
  "dom_issue projectRoot file il =
     \<lparr>issue_file = path_relative projectRoot file, issue_line = fst il + 1,
      issue_text = ''DOM manipulation in component''\<rparr>"

text \<open>The line \<^verbatim>\<open>console.log("x")\<close>, a file with that line twice, and a project
  with that file only.\<close>

definition log_line :: string where
  \<open>log_line = ''console.log("x")''\<close>

definition two_logs :: string where
  "two_logs = log_line @ [CHR 0x0A] @ log_line"

definition two_logs_project :: env where
  "two_logs_project =
     \<lparr>cwd = Some [''project''],
      tree = Dir True [(''app.js'', File (Some 33) (Some two_logs))],
      manifest = Absent, writable = True\<rparr>"

subsubsection \<open>Files of a build directory\<close>

text \<open>The size \<^verbatim>\<open>statSync\<close> reports for a file, the \<^verbatim>\<open>fileInfo\<close> built from it, and
  the extension by which \<^verbatim>\<open>analyzeBuildDirectory\<close> classifies the file.\<close>

definition stat_size :: "env \<Rightarrow> fpath \<Rightarrow> fpath \<Rightarrow> nat" where
  "stat_size e projectRoot file = (case statSync e projectRoot file of Inl err \<Rightarrow> 0 | Inr sz \<Rightarrow> sz)"

definition file_info :: "env \<Rightarrow> fpath \<Rightarrow> fpath \<Rightarrow> fileInfo" where
  "file_info e projectRoot file =
     \<lparr>path = path_relative projectRoot file, size_bytes = stat_size e projectRoot file\<rparr>"

definition ext_of :: "fpath \<Rightarrow> string" where
  "ext_of file = toLowerCase (path_extname (path_basename file))"

definition is_script :: "fpath \<Rightarrow> bool" where
  "is_script file = (ext_of file \<in> set js_extensions)"

definition is_style :: "fpath \<Rightarrow> bool" where
  "is_style file = (ext_of file \<notin> set js_extensions \<and> ext_of file \<in> set css_extensions)"

definition is_asset :: "fpath \<Rightarrow> bool" where
  "is_asset file = (ext_of file \<notin> set js_extensions \<and> ext_of file \<notin> set css_extensions)"

text \<open>The analysis \<^verbatim>\<open>analyzeBuildDirectory\<close> starts from.\<close>

definition empty_analysis :: build_analysis where
  "empty_analysis =
     \<lparr>totalSize = 0, fileCount = 0, jsFiles = [], cssFiles = [], assetFiles = [],
      largestFiles = []\<rparr>"

subsubsection \<open>Listings of a tree\<close>

text \<open>
  A direct listing of a tree, without the file system calls: the regular files below
  a directory, each with its path relative to the directory and its size (\<open>None\<close> for
  a file on which \<^verbatim>\<open>statSync\<close> throws), in the order of the entries. An entry that is
  neither a regular file nor a directory, a symbolic link for instance, is not
  listed: both walkers pass it over. \<open>all_readable\<close> says that every directory of the
  tree can be read, \<open>all_statable\<close> that every listed file has a size,
  \<open>distinct_names\<close> that no directory has two entries of the same name, and
  \<open>tree_sizes\<close> are the sizes of the listed files (0 in the place of a size that
  \<^verbatim>\<open>statSync\<close> does not give).
\<close>

fun tree_files :: "fsnode \<Rightarrow> (fpath \<times> nat option) list"
and tree_files_entries :: "(string \<times> fsnode) list \<Rightarrow> (fpath \<times> nat option) list" where
  "tree_files (Dir r es) = tree_files_entries es"
| "tree_files (File sz c) = []"
| "tree_files Other = []"
| "tree_files_entries [] = []"
| "tree_files_entries ((name, node) # rest) =
     (case node of
        File sz c \<Rightarrow> [([name], sz)]
      | Dir r es \<Rightarrow> map (\<lambda>ps. (name # fst ps, snd ps)) (tree_files node)
      | Other \<Rightarrow> []) @ tree_files_entries rest"

definition all_statable :: "fsnode \<Rightarrow> bool" where
  "all_statable n = list_all (\<lambda>ps. snd ps \<noteq> None) (tree_files n)"

definition tree_sizes :: "fsnode \<Rightarrow> nat list" where
  "tree_sizes n = map (\<lambda>ps. case snd ps of None \<Rightarrow> 0 | Some sz \<Rightarrow> sz) (tree_files n)"

fun all_readable :: "fsnode \<Rightarrow> bool"
and all_readable_entries :: "(string \<times> fsnode) list \<Rightarrow> bool" where
  "all_readable (Dir r es) = (r \<and> all_readable_entries es)"
| "all_readable (File sz c) = True"
| "all_readable Other = True"
| "all_readable_entries [] = True"
| "all_readable_entries ((name, node) # rest) = (all_readable node \<and> all_readable_entries rest)"

fun distinct_names :: "fsnode \<Rightarrow> bool"
and distinct_names_entries :: "(string \<times> fsnode) list \<Rightarrow> bool" where
  "distinct_names (Dir r es) = (distinct (map fst es) \<and> distinct_names_entries es)"
| "distinct_names (File sz c) = True"
| "distinct_names Other = True"
| "distinct_names_entries [] = True"
| "distinct_names_entries ((name, node) # rest) =
     (distinct_names node \<and> distinct_names_entries rest)"

text \<open>
  The same for \<^verbatim>\<open>findFiles\<close>, which stays out of the directories whose name starts
  with a dot and out of \<^verbatim>\<open>node_modules\<close>: the files it is to find, and whether every
  directory it enters can be read.
\<close>

definition entered :: "string \<Rightarrow> bool" where
  "entered name = (\<not> startsWith name ''.'' \<and> name \<noteq> ''node_modules'')"

fun code_files :: "string list \<Rightarrow> fsnode \<Rightarrow> fpath list"
and code_files_entries :: "string list \<Rightarrow> (string \<times> fsnode) list \<Rightarrow> fpath list" where
  "code_files extensions (Dir r es) = code_files_entries extensions es"
| "code_files extensions (File sz c) = []"
| "code_files extensions Other = []"
| "code_files_entries extensions [] = []"
| "code_files_entries extensions ((name, node) # rest) =
     (case node of
        File sz c \<Rightarrow> (if path_extname name \<in> set extensions then [[name]] else [])
      | Dir r es \<Rightarrow> (if entered name then map (\<lambda>p. name # p) (code_files extensions node) else [])
      | Other \<Rightarrow> []) @ code_files_entries extensions rest"

fun entered_readable :: "fsnode \<Rightarrow> bool"
and entered_readable_entries :: "(string \<times> fsnode) list \<Rightarrow> bool" where
  "entered_readable (Dir r es) = (r \<and> entered_readable_entries es)"
| "entered_readable (File sz c) = True"
| "entered_readable Other = True"
| "entered_readable_entries [] = True"
| "entered_readable_entries ((name, node) # rest) =
     ((entered name \<longrightarrow> entered_readable node) \<and> entered_readable_entries rest)"

text \<open>A directory with a readable file and an unreadable subdirectory; the entries of
  a directory in which only the hidden \<^verbatim>\<open>.git\<close> is unreadable.\<close>

definition locked_tree :: fsnode where
  "locked_tree =
     Dir True [(''main.js'', File (Some 10) (Some ''let x'')), (''private'', Dir False [])]"

definition open_entries :: "(string \<times> fsnode) list" where
  "open_entries =
     [(''main.js'', File (Some 10) (Some ''let x'')),
      (''lib'', Dir True [(''util.js'', File (Some 20) (Some ''let y''))]),
      (''.git'', Dir False [])]"

subsubsection \<open>Build directories\<close>

text \<open>A project whose \<^verbatim>\<open>dist\<close> directory holds the one file \<^verbatim>\<open>main.js\<close> of 2 MB, and
  the same project with a \<^verbatim>\<open>dist\<close> that can be listed but not searched, so that
  \<^verbatim>\<open>statSync\<close> throws on the file.\<close>

definition dist_project :: env where
  "dist_project =
     \<lparr>cwd = Some [''project''],
      tree = Dir True [(''dist'', Dir True [(''main.js'', File (Some (2 * 1024 * 1024)) None)])],
      manifest = Absent, writable = True\<rparr>"

definition unsearchable_dist_project :: env where
  "unsearchable_dist_project =
     \<lparr>cwd = Some [''project''],
      tree = Dir True [(''dist'', Dir True [(''main.js'', File None None)])],
      manifest = Absent, writable = True\<rparr>"

text \<open>A project whose \<^verbatim>\<open>build\<close> directory holds a script, a style sheet and, in a
  subdirectory, an image.\<close>

definition assets_project :: env where
  "assets_project =
     \<lparr>cwd = Some [''project''],
      tree = Dir True [(''build'', Dir True
               [(''app.js'', File (Some 10) None), (''style.CSS'', File (Some 20) None),
                (''img'', Dir True [(''logo.png'', File (Some 30) None)])])],
      manifest = Absent, writable = True\<rparr>"

subsubsection \<open>Chunk names\<close>

text \<open>
  The chunk names as the specification words them, to compare with \<open>is_chunk_name\<close>:
  the name contains \<^verbatim>\<open>chunk\<close>, \<^verbatim>\<open>vendor\<close> or \<^verbatim>\<open>common\<close>, or the segment between the
  last two dots, the one just before the extension, has at least 8 characters, all of
  them hexadecimal digits.
\<close>

definition hex_digit :: "char \<Rightarrow> bool" where
  "hex_digit c = (c \<in> set ''0123456789abcdefABCDEF'')"

definition spec_hash_name :: "string \<Rightarrow> bool" where
  "spec_hash_name filename =
     (case dropWhile (\<lambda>c. c \<noteq> CHR ''.'') (rev filename) of
        [] \<Rightarrow> False
      | dot # before \<Rightarrow>
          (let segment = takeWhile (\<lambda>c. c \<noteq> CHR ''.'') before
           in length segment \<ge> 8 \<and> list_all hex_digit segment
              \<and> dropWhile (\<lambda>c. c \<noteq> CHR ''.'') before \<noteq> []))"

definition spec_chunk_name :: "string \<Rightarrow> bool" where
  "spec_chunk_name filename =
     (str_includes filename ''chunk'' \<or> str_includes filename ''vendor''
      \<or> str_includes filename ''common'' \<or> spec_hash_name filename)"

text \<open>The recommendation \<^verbatim>\<open>analyzeChunking\<close> pushes for a file.\<close>

definition entry_recommendation :: "fileInfo \<Rightarrow> chunk_recommendation" where
  "entry_recommendation f =
     \<lparr>rec_type = ''code-splitting'', rec_file = path f, rec_sizeKB100 = sizeKB100 f,
      rec_message = ''Large entry file detected - consider code splitting''\<rparr>"

text \<open>Whether \<^verbatim>\<open>analyzeChunking\<close> takes a file for a chunk, by its file name.\<close>

definition chunk_file :: "fileInfo \<Rightarrow> bool" where
  "chunk_file f = is_chunk_name (path_basename (path f))"

text \<open>Three script files of \<^verbatim>\<open>dist\<close>, each of more than 500000 bytes.\<close>

definition hashed_mjs :: fileInfo where
  "hashed_mjs = \<lparr>path = [''dist'', ''app.0123abcd.mjs''], size_bytes = 600000\<rparr>"

definition plain_main :: fileInfo where
  "plain_main = \<lparr>path = [''dist'', ''main.js''], size_bytes = 600000\<rparr>"

definition hashed_js :: fileInfo where
  "hashed_js = \<lparr>path = [''dist'', ''app.0123abcd.js''], size_bytes = 700000\<rparr>"

section \<open>Properties\<close>

subsection \<open>The score\<close>

lemma score_aggregate: "score (aggregate src s r) = score s - penalty r"
  by (simp add: aggregate_def penalty_def Let_def)

lemma score_foldl_aggregate:
  "score (foldl (aggregate src) s rs) = score s - sum_list (map penalty rs)"
  by (induction rs arbitrary: s) (simp_all add: score_aggregate)

lemma sum_list_penalty:
  "sum_list (map penalty rs) =
     15 * int (length (filter (\<lambda>r. priority r = ''High'') rs)) +
     10 * int (length (filter (\<lambda>r. priority r = ''Medium'') rs)) +
     5 * int (length (filter (\<lambda>r. priority r \<noteq> ''High'' \<and> priority r \<noteq> ''Medium'') rs))"
  by (induction rs) (simp_all add: penalty_def)

lemma score_generateSummary:
  "score (generateSummary results) = max 0 (100 - sum_list (map penalty (aggregated results)))"
  by (simp add: generateSummary_def aggregated_def Let_def score_foldl_aggregate
      diff_diff_eq split: option.split)

text \<open>
  Claim C1. For every collection of recommendations that \<^verbatim>\<open>generateSummary\<close>
  aggregates, the score is 100 minus 15 for every High recommendation, minus 10 for
  every Medium one and minus 5 for every other one, floored at 0. It is 100 when there
  is no recommendation, 85 for exactly one High one, 75 for one High and one Medium
  one (in either order), and it is never negative and never above 100.
\<close>

theorem generateSummary_score:
  "score (generateSummary results) =
     max 0 (100
       - 15 * int (length (filter (\<lambda>r. priority r = ''High'') (aggregated results)))
       - 10 * int (length (filter (\<lambda>r. priority r = ''Medium'') (aggregated results)))
       - 5 * int (length (filter (\<lambda>r. priority r \<noteq> ''High'' \<and> priority r \<noteq> ''Medium'')
            (aggregated results))))
   \<and> (aggregated results = [] \<longrightarrow> score (generateSummary results) = 100)
   \<and> (\<forall>h. aggregated results = [h] \<and> priority h = ''High''
          \<longrightarrow> score (generateSummary results) = 85)
   \<and> (\<forall>h m. (aggregated results = [h, m] \<or> aggregated results = [m, h])
          \<and> priority h = ''High'' \<and> priority m = ''Medium''
          \<longrightarrow> score (generateSummary results) = 75)
   \<and> 0 \<le> score (generateSummary results) \<and> score (generateSummary results) \<le> 100"
proof -
  let ?rs = "aggregated results"
  have general: "score (generateSummary results) = max 0 (100 - sum_list (map penalty ?rs))"
    by (rule score_generateSummary)
  have first: "score (generateSummary results) =
     max 0 (100
       - 15 * int (length (filter (\<lambda>r. priority r = ''High'') ?rs))
       - 10 * int (length (filter (\<lambda>r. priority r = ''Medium'') ?rs))
       - 5 * int (length (filter (\<lambda>r. priority r \<noteq> ''High'' \<and> priority r \<noteq> ''Medium'') ?rs)))"
    unfolding general sum_list_penalty by (simp add: algebra_simps)
  have none: "?rs = [] \<longrightarrow> score (generateSummary results) = 100"
    by (simp add: general)
  have one: "\<forall>h. ?rs = [h] \<and> priority h = ''High'' \<longrightarrow> score (generateSummary results) = 85"
    by (simp add: general penalty_def)
  have two: "\<forall>h m. (?rs = [h, m] \<or> ?rs = [m, h]) \<and> priority h = ''High''
      \<and> priority m = ''Medium'' \<longrightarrow> score (generateSummary results) = 75"
    by (auto simp add: general penalty_def)
  have floor: "0 \<le> score (generateSummary results)"
    by (simp add: general)
  have "0 \<le> sum_list (map penalty rs)" for rs
    by (induction rs) (simp_all add: penalty_def)
  then have top: "score (generateSummary results) \<le> 100"
    by (simp add: general)
  from first none one two floor top show ?thesis by blast
qed

text \<open>One High recommendation of the performance analysis and one Medium optimization
  of the bundle analysis.\<close>

theorem generateSummary_score_witness:
  "aggregated \<lparr>performance = Some (pa_initial\<lparr>recommendations := [recommend ''A'' ''High'' ''i'' ''s'']\<rparr>),
               bundle_results = Some (ba_initial\<lparr>optimizations := [recommend ''B'' ''Medium'' ''i'' ''s'']\<rparr>)\<rparr>
     = [recommend ''A'' ''High'' ''i'' ''s'', recommend ''B'' ''Medium'' ''i'' ''s'']
   \<and> priority (recommend ''A'' ''High'' ''i'' ''s'') = ''High''
   \<and> priority (recommend ''B'' ''Medium'' ''i'' ''s'') = ''Medium''
   \<and> score (generateSummary
        \<lparr>performance = Some (pa_initial\<lparr>recommendations := [recommend ''A'' ''High'' ''i'' ''s'']\<rparr>),
         bundle_results = Some (ba_initial\<lparr>optimizations := [recommend ''B'' ''Medium'' ''i'' ''s'']\<rparr>)\<rparr>)
     = 75"
proof -
  let ?r = "\<lparr>performance = Some (pa_initial\<lparr>recommendations := [recommend ''A'' ''High'' ''i'' ''s'']\<rparr>),
             bundle_results = Some (ba_initial\<lparr>optimizations := [recommend ''B'' ''Medium'' ''i'' ''s'']\<rparr>)\<rparr>"
  have a: "aggregated ?r = [recommend ''A'' ''High'' ''i'' ''s'', recommend ''B'' ''Medium'' ''i'' ''s'']"
    by (simp add: aggregated_def)
  have h: "priority (recommend ''A'' ''High'' ''i'' ''s'') = ''High''"
    and m: "priority (recommend ''B'' ''Medium'' ''i'' ''s'') = ''Medium''"
    by (simp_all add: recommend_def)
  from generateSummary_score [of ?r] a h m
  have "score (generateSummary ?r) = 75" by blast
  with a h m show ?thesis by blast
qed

subsection \<open>An absent or unparseable manifest\<close>

lemma existsSync_manifest:
  "existsSync e projectRoot (manifest_path projectRoot) = (manifest e \<noteq> Absent)"
  by (simp add: existsSync_def)

lemma detectProjectType_Absent:
  "manifest e = Absent \<Longrightarrow>
     detectProjectType e projectRoot results = (results\<lparr>projectType := Some ''unknown''\<rparr>, None)"
  by (simp add: detectProjectType_def existsSync_manifest)

lemma detectProjectType_Malformed:
  "manifest e = Malformed \<Longrightarrow> detectProjectType e projectRoot results = (results, Some SyntaxError)"
  by (simp add: detectProjectType_def existsSync_manifest read_manifest_def)

lemma analyze_Malformed:
  "manifest e = Malformed \<Longrightarrow> PerformanceAnalyzer_analyze e projectRoot = (pa_initial, Some SyntaxError)"
  by (simp add: PerformanceAnalyzer_analyze_def detectProjectType_Malformed)

lemma run_phases_keeps:
  "list_all keeps_projectType ps \<Longrightarrow> projectType (fst (run_phases ps s)) = projectType s"
proof (induction ps arbitrary: s)
  case Nil
  then show ?case by simp
next
  case (Cons p ps)
  from Cons.prems have kp: "keeps_projectType p" and ps: "list_all keeps_projectType ps"
    by simp_all
  from kp have p: "projectType (fst (p s)) = projectType s"
    by (simp add: keeps_projectType_def)
  show ?case
  proof (cases "p s")
    case (Pair s' r)
    with p have s': "projectType s' = projectType s" by simp
    show ?thesis
    proof (cases r)
      case None
      with Pair Cons.IH [OF ps, of s'] s' show ?thesis by simp
    next
      case (Some err)
      with Pair s' show ?thesis by simp
    qed
  qed
qed

lemma keeps_analyzeDependencies: "keeps_projectType (analyzeDependencies e r)"
  by (simp add: keeps_projectType_def analyzeDependencies_def Let_def split: sum.split)

lemma keeps_analyzeCodePatterns: "keeps_projectType (analyzeCodePatterns e r)"
  by (simp add: keeps_projectType_def analyzeCodePatterns_def split: sum.split)

lemma keeps_analyzeBundleSize: "keeps_projectType (analyzeBundleSize e r)"
  by (simp add: keeps_projectType_def analyzeBundleSize_def split: sum.split)

lemma keeps_generateRecommendations: "keeps_projectType generateRecommendations"
  by (simp add: keeps_projectType_def generateRecommendations_def Let_def)

lemma keeps_pa_printReport: "keeps_projectType (pa_printReport e)"
  by (simp add: keeps_projectType_def pa_printReport_def)

lemma analyze_Absent:
  assumes "manifest e = Absent"
  shows "projectType (fst (PerformanceAnalyzer_analyze e projectRoot)) = Some ''unknown''"
proof -
  have "list_all keeps_projectType
          [analyzeDependencies e projectRoot, analyzeCodePatterns e projectRoot,
           analyzeBundleSize e projectRoot, generateRecommendations, pa_printReport e]"
    by (simp add: keeps_analyzeDependencies keeps_analyzeCodePatterns keeps_analyzeBundleSize
        keeps_generateRecommendations keeps_pa_printReport)
  from run_phases_keeps [OF this] assms show ?thesis
    by (simp add: PerformanceAnalyzer_analyze_def detectProjectType_Absent)
qed

lemma generateRecommendations_returns:
  "generateRecommendations s = (fst (generateRecommendations s), None)"
  by (simp add: generateRecommendations_def Let_def)

lemma analyze_Absent_phases:
  assumes "manifest e = Absent"
  shows "PerformanceAnalyzer_analyze e projectRoot =
     run_phases
       [analyzeDependencies e projectRoot, analyzeCodePatterns e projectRoot,
        analyzeBundleSize e projectRoot, generateRecommendations, pa_printReport e]
       (pa_initial\<lparr>projectType := Some ''unknown''\<rparr>)"
  using assms by (simp add: PerformanceAnalyzer_analyze_def detectProjectType_Absent)

lemma analyze_Absent_found:
  assumes "manifest e = Absent"
    and "findFiles_at e projectRoot code_extensions projectRoot = Inr codeFiles"
  shows "PerformanceAnalyzer_analyze e projectRoot =
     (fst (generateRecommendations (scanned_project e projectRoot codeFiles)), writeFileSync e)"
proof -
  have "run_phases [generateRecommendations, pa_printReport e] s
          = (fst (generateRecommendations s), writeFileSync e)" for s
    using generateRecommendations_returns [of s]
    by (cases "generateRecommendations s") (simp add: pa_printReport_def split: option.split)
  with assms show ?thesis
    unfolding analyze_Absent_phases [OF assms(1)]
    by (simp add: analyzeDependencies_def existsSync_manifest analyzeCodePatterns_def
        analyzeBundleSize_def getBuildScripts_def pa_initial_def scanned_project_def)
qed

lemma analyze_Absent_walk_fails:
  assumes "manifest e = Absent"
    and "findFiles_at e projectRoot code_extensions projectRoot = Inl err"
  shows "PerformanceAnalyzer_analyze e projectRoot
           = (pa_initial\<lparr>projectType := Some ''unknown''\<rparr>, Some err)"
  using assms unfolding analyze_Absent_phases [OF assms(1)]
  by (simp add: analyzeDependencies_def existsSync_manifest analyzeCodePatterns_def)

lemma scanned_project_fields:
  "codeAnalysis (fst (generateRecommendations (scanned_project e r codeFiles)))
     = Some (foldl (scan_file e r) no_patterns codeFiles)"
  "bundleAnalysis (fst (generateRecommendations (scanned_project e r codeFiles))) \<noteq> None"
  "dependencyAnalysis (fst (generateRecommendations (scanned_project e r codeFiles))) = None"
  by (simp_all add: generateRecommendations_def Let_def scanned_project_def)

text \<open>
  Claim C3, as the code has it. When the manifest is absent, \<^verbatim>\<open>detectProjectType\<close>
  sets the project type \<^verbatim>\<open>unknown\<close> and returns normally, and the analysis goes on
  with that project type: \<^verbatim>\<open>analyze\<close> is the run of the five remaining phases from
  there. If the walk over the code files returns, the results hold the code analysis
  of the files found and the bundle analysis (with no build script), the
  recommendations are generated from them, and \<^verbatim>\<open>analyze\<close> ends with the writing of
  the report; if the walk throws, that is the error \<^verbatim>\<open>analyze\<close> catches, after the
  dependency phase. When the manifest is present but not parseable as JSON, the
  \<^verbatim>\<open>SyntaxError\<close> of \<^verbatim>\<open>JSON.parse\<close> leaves \<^verbatim>\<open>detectProjectType\<close> and no project
  type is set; the \<^verbatim>\<open>catch\<close> of \<^verbatim>\<open>analyze\<close> takes it, so that \<^verbatim>\<open>analyze\<close> returns
  normally, with the results of the constructor and none of the later phases run.
\<close>

theorem detectProjectType_manifest:
  "(manifest e = Absent \<longrightarrow>
      detectProjectType e projectRoot results = (results\<lparr>projectType := Some ''unknown''\<rparr>, None)
      \<and> projectType (fst (PerformanceAnalyzer_analyze e projectRoot)) = Some ''unknown''
      \<and> PerformanceAnalyzer_analyze e projectRoot =
          run_phases
            [analyzeDependencies e projectRoot, analyzeCodePatterns e projectRoot,
             analyzeBundleSize e projectRoot, generateRecommendations, pa_printReport e]
            (pa_initial\<lparr>projectType := Some ''unknown''\<rparr>)
      \<and> (\<forall>codeFiles. findFiles_at e projectRoot code_extensions projectRoot = Inr codeFiles \<longrightarrow>
            PerformanceAnalyzer_analyze e projectRoot =
              (fst (generateRecommendations (scanned_project e projectRoot codeFiles)),
               writeFileSync e)
            \<and> codeAnalysis (fst (PerformanceAnalyzer_analyze e projectRoot))
                = Some (foldl (scan_file e projectRoot) no_patterns codeFiles)
            \<and> bundleAnalysis (fst (PerformanceAnalyzer_analyze e projectRoot)) \<noteq> None)
      \<and> (\<forall>err. findFiles_at e projectRoot code_extensions projectRoot = Inl err \<longrightarrow>
            PerformanceAnalyzer_analyze e projectRoot
              = (pa_initial\<lparr>projectType := Some ''unknown''\<rparr>, Some err)))
   \<and> (manifest e = Malformed \<longrightarrow>
      detectProjectType e projectRoot results = (results, Some SyntaxError)
      \<and> PerformanceAnalyzer_analyze e projectRoot = (pa_initial, Some SyntaxError))"
proof -
  have absent: "detectProjectType e projectRoot results
        = (results\<lparr>projectType := Some ''unknown''\<rparr>, None)
      \<and> projectType (fst (PerformanceAnalyzer_analyze e projectRoot)) = Some ''unknown''
      \<and> PerformanceAnalyzer_analyze e projectRoot =
          run_phases
            [analyzeDependencies e projectRoot, analyzeCodePatterns e projectRoot,
             analyzeBundleSize e projectRoot, generateRecommendations, pa_printReport e]
            (pa_initial\<lparr>projectType := Some ''unknown''\<rparr>)
      \<and> (\<forall>codeFiles. findFiles_at e projectRoot code_extensions projectRoot = Inr codeFiles \<longrightarrow>
            PerformanceAnalyzer_analyze e projectRoot =
              (fst (generateRecommendations (scanned_project e projectRoot codeFiles)),
               writeFileSync e)
            \<and> codeAnalysis (fst (PerformanceAnalyzer_analyze e projectRoot))
                = Some (foldl (scan_file e projectRoot) no_patterns codeFiles)
            \<and> bundleAnalysis (fst (PerformanceAnalyzer_analyze e projectRoot)) \<noteq> None)
      \<and> (\<forall>err. findFiles_at e projectRoot code_extensions projectRoot = Inl err \<longrightarrow>
            PerformanceAnalyzer_analyze e projectRoot
              = (pa_initial\<lparr>projectType := Some ''unknown''\<rparr>, Some err))"
    if m: "manifest e = Absent"
  proof -
    have found: "PerformanceAnalyzer_analyze e projectRoot =
              (fst (generateRecommendations (scanned_project e projectRoot codeFiles)),
               writeFileSync e)
            \<and> codeAnalysis (fst (PerformanceAnalyzer_analyze e projectRoot))
                = Some (foldl (scan_file e projectRoot) no_patterns codeFiles)
            \<and> bundleAnalysis (fst (PerformanceAnalyzer_analyze e projectRoot)) \<noteq> None"
      if "findFiles_at e projectRoot code_extensions projectRoot = Inr codeFiles" for codeFiles
      unfolding analyze_Absent_found [OF m that]
      by (simp add: scanned_project_fields)
    from found detectProjectType_Absent [OF m] analyze_Absent [OF m]
      analyze_Absent_phases [OF m] analyze_Absent_walk_fails [OF m]
    show ?thesis by blast
  qed
  have malformed: "detectProjectType e projectRoot results = (results, Some SyntaxError)
      \<and> PerformanceAnalyzer_analyze e projectRoot = (pa_initial, Some SyntaxError)"
    if "manifest e = Malformed"
    using that by (simp add: detectProjectType_Malformed analyze_Malformed)
  from absent malformed show ?thesis by blast
qed

text \<open>Both cases, on a project with an empty directory: without manifest the run
  goes through to the report, with an empty code analysis and no recommendation.\<close>

theorem detectProjectType_manifest_witness:
  "manifest (bare_project Absent) = Absent
   \<and> manifest (bare_project Malformed) = Malformed
   \<and> findFiles_at (bare_project Absent) [''project''] code_extensions [''project''] = Inr []
   \<and> detectProjectType (bare_project Absent) [''project''] pa_initial
       = (pa_initial\<lparr>projectType := Some ''unknown''\<rparr>, None)
   \<and> projectType (fst (PerformanceAnalyzer_analyze (bare_project Absent) [''project'']))
       = Some ''unknown''
   \<and> codeAnalysis (fst (PerformanceAnalyzer_analyze (bare_project Absent) [''project'']))
       = Some no_patterns
   \<and> bundleAnalysis (fst (PerformanceAnalyzer_analyze (bare_project Absent) [''project'']))
       \<noteq> None
   \<and> recommendations (fst (PerformanceAnalyzer_analyze (bare_project Absent) [''project''])) = []
   \<and> snd (PerformanceAnalyzer_analyze (bare_project Absent) [''project'']) = None
   \<and> PerformanceAnalyzer_analyze (bare_project Malformed) [''project'']
       = (pa_initial, Some SyntaxError)"
proof -
  have ma: "manifest (bare_project Absent) = Absent"
    and mm: "manifest (bare_project Malformed) = Malformed"
    by (simp_all add: bare_project_def)
  have walk: "findFiles_at (bare_project Absent) [''project''] code_extensions [''project'']
                = Inr []"
    by (simp add: findFiles_at_def node_at_def bare_project_def)
  note absent = detectProjectType_manifest [of "bare_project Absent" "[''project'']" pa_initial,
      THEN conjunct1, rule_format, OF ma]
  note malformed = detectProjectType_manifest [of "bare_project Malformed" "[''project'']"
      pa_initial, THEN conjunct2, rule_format, OF mm]
  note found = absent [THEN conjunct2, THEN conjunct2, THEN conjunct2, THEN conjunct1,
      rule_format, OF walk]
  have d: "detectProjectType (bare_project Absent) [''project''] pa_initial
       = (pa_initial\<lparr>projectType := Some ''unknown''\<rparr>, None)"
    by (rule absent [THEN conjunct1])
  have p: "projectType (fst (PerformanceAnalyzer_analyze (bare_project Absent) [''project'']))
       = Some ''unknown''"
    by (rule absent [THEN conjunct2, THEN conjunct1])
  have run: "PerformanceAnalyzer_analyze (bare_project Absent) [''project''] =
      (fst (generateRecommendations (scanned_project (bare_project Absent) [''project''] [])),
       writeFileSync (bare_project Absent))"
    by (rule found [THEN conjunct1])
  have c: "codeAnalysis (fst (PerformanceAnalyzer_analyze (bare_project Absent) [''project'']))
       = Some no_patterns"
    using found [THEN conjunct2, THEN conjunct1] by simp
  have b: "bundleAnalysis (fst (PerformanceAnalyzer_analyze (bare_project Absent) [''project'']))
       \<noteq> None"
    by (rule found [THEN conjunct2, THEN conjunct2])
  have r: "recommendations (fst (PerformanceAnalyzer_analyze (bare_project Absent) [''project'']))
             = []"
    unfolding run
    by (simp add: generateRecommendations_def Let_def scanned_project_def no_patterns_def
        addFrameworkSpecificRecommendations_def)
  have w: "snd (PerformanceAnalyzer_analyze (bare_project Absent) [''project'']) = None"
    unfolding run by (simp add: writeFileSync_def bare_project_def)
  have m: "PerformanceAnalyzer_analyze (bare_project Malformed) [''project'']
       = (pa_initial, Some SyntaxError)"
    by (rule malformed [THEN conjunct2])
  from ma mm walk d p c b r w m show ?thesis by (simp only: simp_thms)
qed

text \<open>
  Claim C3 as stated fails for an unparseable manifest: \<^verbatim>\<open>detectProjectType\<close> throws,
  the project type stays unset (it is not \<^verbatim>\<open>unknown\<close>), and the rest of the analysis
  is not run (no code analysis in the results).
\<close>

theorem detectProjectType_malformed_counterexample:
  "detectProjectType (bare_project Malformed) [''project''] pa_initial = (pa_initial, Some SyntaxError)
   \<and> projectType (fst (detectProjectType (bare_project Malformed) [''project''] pa_initial)) = None
   \<and> PerformanceAnalyzer_analyze (bare_project Malformed) [''project''] = (pa_initial, Some SyntaxError)
   \<and> codeAnalysis (fst (PerformanceAnalyzer_analyze (bare_project Malformed) [''project''])) = None"
  by (simp add: PerformanceAnalyzer_analyze_def detectProjectType_def existsSync_manifest
      read_manifest_def bare_project_def pa_initial_def)

subsection \<open>The exit status of the command line\<close>

lemma outputResults_cases:
  "outputResults e opts s =
     (if outputFormat opts = ''json'' \<or> outputFormat opts = ''html''
      then (if cwd e = None then Inl ENOENT else if writable e then Inr s else Inl EACCES)
      else Inr (outputConsole s))"
  by (simp add: outputResults_def writeFileSync_def split: option.split)

lemma runComplete_fails: "(\<exists>err. runComplete e opts = Inl err) = run_fails e opts"
  by (auto simp add: runComplete_def finish_run_def Let_def outputResults_cases run_fails_def
      split: option.splits if_splits sum.splits)

lemma runComplete_total: "(\<exists>r. runComplete e opts = Inr r) = (\<not> run_fails e opts)"
proof -
  have "(\<exists>r. runComplete e opts = Inr r) = (\<not> (\<exists>err. runComplete e opts = Inl err))"
    by (cases "runComplete e opts") simp_all
  then show ?thesis by (simp add: runComplete_fails)
qed

lemma cli_exit_status_eq: "cli_exit_status e args = (if run_fails e (parse_args args) then 1 else 0)"
proof (cases "runComplete e (parse_args args)")
  case (Inl err)
  then have "run_fails e (parse_args args)" using runComplete_fails [of e "parse_args args"] by blast
  with Inl show ?thesis by (simp add: cli_exit_status_def)
next
  case (Inr r)
  then have "\<not> run_fails e (parse_args args)" using runComplete_total [of e "parse_args args"] by blast
  with Inr show ?thesis by (simp add: cli_exit_status_def)
qed

text \<open>
  Claim C4, as the code has it. The exit status is 0 exactly when \<^verbatim>\<open>runComplete\<close>
  returns and 1 exactly when it throws. It throws only when \<^verbatim>\<open>process.cwd()\<close> fails
  while an analysis is requested, or when the JSON or HTML report cannot be written.
  What is thrown inside an analyzer is caught by its \<^verbatim>\<open>analyze\<close>: the exit status
  does not depend on the manifest, and it is 0 whenever the working directory exists
  and is writable.
\<close>

theorem cli_exit_status_cases:
  "cli_exit_status e args = (if run_fails e (parse_args args) then 1 else 0)
   \<and> (cli_exit_status e args = 0) = (\<exists>r. runComplete e (parse_args args) = Inr r)
   \<and> (cli_exit_status e args = 1) = (\<exists>err. runComplete e (parse_args args) = Inl err)
   \<and> cli_exit_status (e\<lparr>manifest := m\<rparr>) args = cli_exit_status e args
   \<and> (cwd e \<noteq> None \<and> writable e \<longrightarrow> cli_exit_status e args = 0)"
proof -
  have eq: "cli_exit_status e args = (if run_fails e (parse_args args) then 1 else 0)"
    by (rule cli_exit_status_eq)
  have zero: "(cli_exit_status e args = 0) = (\<exists>r. runComplete e (parse_args args) = Inr r)"
    unfolding runComplete_total by (simp add: eq)
  have one: "(cli_exit_status e args = 1) = (\<exists>err. runComplete e (parse_args args) = Inl err)"
    unfolding runComplete_fails by (simp add: eq)
  have indep: "cli_exit_status (e\<lparr>manifest := m\<rparr>) args = cli_exit_status e args"
    by (simp add: cli_exit_status_eq run_fails_def)
  have ok: "cwd e \<noteq> None \<and> writable e \<longrightarrow> cli_exit_status e args = 0"
    by (simp add: eq run_fails_def)
  from eq zero one indep ok show ?thesis by blast
qed

text \<open>A writable project with an unparseable manifest, run with \<^verbatim>\<open>--json\<close>.\<close>

theorem cli_exit_status_cases_witness:
  "cwd (bare_project Malformed) \<noteq> None \<and> writable (bare_project Malformed)
   \<and> cli_exit_status (bare_project Malformed) [''--json''] = 0"
proof -
  have c: "cwd (bare_project Malformed) \<noteq> None" and w: "writable (bare_project Malformed)"
    by (simp_all add: bare_project_def)
  from cli_exit_status_cases [of "bare_project Malformed" "[''--json'']" Malformed] c w
  have "cli_exit_status (bare_project Malformed) [''--json''] = 0" by blast
  with c w show ?thesis by blast
qed

text \<open>
  Claim C4 as stated fails: with a manifest that cannot be parsed, both analyzers end
  in their \<^verbatim>\<open>catch\<close> with a \<^verbatim>\<open>SyntaxError\<close>, nothing is analyzed, and the exit status
  is still 0.
\<close>

theorem cli_exit_status_malformed_counterexample:
  "manifest (bare_project Malformed) = Malformed
   \<and> snd (PerformanceAnalyzer_analyze (bare_project Malformed) [''project'']) = Some SyntaxError
   \<and> snd (BundleAnalyzer_analyze (bare_project Malformed) [''project'']) = Some SyntaxError
   \<and> cli_exit_status (bare_project Malformed) [] = 0"
  by (simp add: cli_exit_status_eq run_fails_def bare_project_def analyze_Malformed
      BundleAnalyzer_analyze_def detectBundler_def bundlers_def existsSync_def manifest_path_def
      path_join_def node_at_def read_manifest_def parse_args_def default_options_def)

subsection \<open>Duplicate and heavy dependencies\<close>

lemma duplicateGroups_split: "duplicateGroups = date_group # other_groups"
  by (simp add: duplicateGroups_def date_group_def other_groups_def)

lemma findDuplicateDependencies_eq:
  "findDuplicateDependencies deps =
     filter (\<lambda>found. length found > 1) (map (\<lambda>group. group_found group deps) duplicateGroups)"
proof -
  have "foldl (\<lambda>duplicates group.
                 (let found = filter (\<lambda>dep. dep \<in> set group) (map fst deps)
                  in if length found > 1 then duplicates @ [found] else duplicates)) acc gs
        = acc @ filter (\<lambda>found. length found > 1) (map (\<lambda>group. group_found group deps) gs)"
    for acc gs
    by (induction gs arbitrary: acc) (simp_all add: Let_def group_found_def)
  then show ?thesis by (simp add: findDuplicateDependencies_def Let_def)
qed

lemma two_members_length:
  assumes "a \<in> set xs" and "b \<in> set xs" and "a \<noteq> b"
  shows "length xs > 1"
proof -
  from assms have "card {a, b} \<le> card (set xs)" by (intro card_mono) simp_all
  with assms(3) have "2 \<le> card (set xs)" by simp
  also have "card (set xs) \<le> length xs" by (rule card_length)
  finally show ?thesis by simp
qed

lemma date_found_both:
  assumes "''moment'' \<in> fst ` set deps" and "''date-fns'' \<in> fst ` set deps"
  shows "''moment'' \<in> set (group_found date_group deps)"
    and "''date-fns'' \<in> set (group_found date_group deps)"
    and "length (group_found date_group deps) > 1"
proof -
  show m: "''moment'' \<in> set (group_found date_group deps)"
    using assms(1) by (simp add: group_found_def date_group_def)
  show d: "''date-fns'' \<in> set (group_found date_group deps)"
    using assms(2) by (simp add: group_found_def date_group_def)
  from m d show "length (group_found date_group deps) > 1"
    by (rule two_members_length) simp
qed

lemma other_found_no_date:
  assumes "g \<in> set other_groups" and "x \<in> set date_group"
  shows "x \<notin> set (group_found g deps)"
  using assms by (auto simp add: group_found_def other_groups_def date_group_def)

text \<open>
  Claim C7, as the code has it. When the dependencies declare both \<^verbatim>\<open>moment\<close> and
  \<^verbatim>\<open>date-fns\<close>, the first finding of \<^verbatim>\<open>findDuplicateDependencies\<close> is the one of
  the date group; it contains both names, and no other finding contains either of
  them. The other findings are those of the other three groups, one for every group
  with at least two declared members; there is none when every other group has at
  most one declared member.
\<close>

theorem findDuplicateDependencies_moment_date_fns:
  assumes "''moment'' \<in> fst ` set deps" and "''date-fns'' \<in> fst ` set deps"
  shows "\<exists>rest. findDuplicateDependencies deps = group_found date_group deps # rest
          \<and> ''moment'' \<in> set (group_found date_group deps)
          \<and> ''date-fns'' \<in> set (group_found date_group deps)
          \<and> (\<forall>found \<in> set rest. ''moment'' \<notin> set found \<and> ''date-fns'' \<notin> set found)
          \<and> rest = filter (\<lambda>found. length found > 1)
                      (map (\<lambda>group. group_found group deps) other_groups)
          \<and> ((\<forall>group \<in> set other_groups. length (group_found group deps) \<le> 1) \<longrightarrow> rest = [])"
proof -
  let ?rest = "filter (\<lambda>found. length found > 1) (map (\<lambda>group. group_found group deps) other_groups)"
  from date_found_both [OF assms]
  have m: "''moment'' \<in> set (group_found date_group deps)"
    and d: "''date-fns'' \<in> set (group_found date_group deps)"
    and l: "length (group_found date_group deps) > 1" .
  from l have eq: "findDuplicateDependencies deps = group_found date_group deps # ?rest"
    by (simp add: findDuplicateDependencies_eq duplicateGroups_split)
  have none: "\<forall>found \<in> set ?rest. ''moment'' \<notin> set found \<and> ''date-fns'' \<notin> set found"
  proof
    fix found assume "found \<in> set ?rest"
    then obtain g where g: "g \<in> set other_groups" and f: "found = group_found g deps" by auto
    from other_found_no_date [OF g, of "''moment''" deps] other_found_no_date [OF g, of "''date-fns''" deps]
    show "''moment'' \<notin> set found \<and> ''date-fns'' \<notin> set found"
      by (simp add: f date_group_def)
  qed
  have only: "(\<forall>group \<in> set other_groups. length (group_found group deps) \<le> 1) \<longrightarrow> ?rest = []"
    by (auto simp add: filter_empty_conv)
  from eq m d none only show ?thesis by blast
qed

text \<open>A manifest with \<^verbatim>\<open>moment\<close>, \<^verbatim>\<open>react\<close> and \<^verbatim>\<open>date-fns\<close>: one finding.\<close>

theorem findDuplicateDependencies_moment_date_fns_witness:
  "''moment'' \<in> fst ` set date_deps \<and> ''date-fns'' \<in> fst ` set date_deps
   \<and> findDuplicateDependencies date_deps = [[''moment'', ''date-fns'']]"
proof -
  have m: "''moment'' \<in> fst ` set date_deps" and d: "''date-fns'' \<in> fst ` set date_deps"
    by (simp_all add: date_deps_def)
  have small: "\<forall>group \<in> set other_groups. length (group_found group date_deps) \<le> 1"
    by (simp add: other_groups_def group_found_def date_deps_def)
  have found: "group_found date_group date_deps = [''moment'', ''date-fns'']"
    by (simp add: date_group_def group_found_def date_deps_def)
  from findDuplicateDependencies_moment_date_fns [OF m d] small found
  have "findDuplicateDependencies date_deps = [[''moment'', ''date-fns'']]" by auto
  with m d show ?thesis by blast
qed

text \<open>
  Claim C7 as stated fails: a manifest that declares \<^verbatim>\<open>moment\<close> and \<^verbatim>\<open>date-fns\<close>, and
  also \<^verbatim>\<open>lodash\<close> and \<^verbatim>\<open>ramda\<close>, gets two findings.
\<close>

theorem findDuplicateDependencies_two_groups_counterexample:
  "''moment'' \<in> fst ` set date_lodash_deps \<and> ''date-fns'' \<in> fst ` set date_lodash_deps
   \<and> findDuplicateDependencies date_lodash_deps
       = [[''moment'', ''date-fns''], [''lodash'', ''ramda'']]
   \<and> length (findDuplicateDependencies date_lodash_deps) = 2"
  by (simp add: findDuplicateDependencies_def duplicateGroups_def date_lodash_deps_def Let_def)

lemma group_found_subset: "set (group_found g deps) \<subseteq> fst ` set deps"
  by (auto simp add: group_found_def)

lemma findDuplicateDependencies_names:
  assumes "found \<in> set (findDuplicateDependencies deps)" and "x \<in> set found"
  shows "x \<in> fst ` set deps"
proof -
  from assms(1) obtain g where "found = group_found g deps"
    by (auto simp add: findDuplicateDependencies_eq)
  with assms(2) group_found_subset [of g deps] show ?thesis by blast
qed

lemma analyzeDependencies_Manifest:
  assumes "manifest e = Manifest pkg"
  shows "analyzeDependencies e projectRoot results =
     (results\<lparr>dependencyAnalysis := Some
        \<lparr>totalDependencies = length (case pkg_dependencies pkg of None \<Rightarrow> [] | Some d \<Rightarrow> d),
         totalDevDependencies = length (case pkg_devDependencies pkg of None \<Rightarrow> [] | Some d \<Rightarrow> d),
         heavyDependencies =
           filter (\<lambda>dep. list_ex (\<lambda>heavy. str_includes dep heavy) heavyList)
             (map fst (case pkg_dependencies pkg of None \<Rightarrow> [] | Some d \<Rightarrow> d)),
         duplicateDependencies =
           findDuplicateDependencies (case pkg_dependencies pkg of None \<Rightarrow> [] | Some d \<Rightarrow> d)\<rparr>\<rparr>,
      None)"
  using assms by (simp add: analyzeDependencies_def existsSync_def read_manifest_def Let_def)

text \<open>
  Claim C10. For every parsed manifest, every heavy dependency reported and every
  name in a duplicate finding is a key of the \<^verbatim>\<open>dependencies\<close> map, so a package
  that is declared under \<^verbatim>\<open>devDependencies\<close> only is never reported. The
  \<^verbatim>\<open>devDependencies\<close> are read and counted (\<^verbatim>\<open>totalDevDependencies\<close>), and changing
  them changes nothing but that count.
\<close>

theorem analyzeDependencies_only_dependencies:
  assumes "manifest e = Manifest pkg"
  shows "\<exists>a. analyzeDependencies e projectRoot results = (results\<lparr>dependencyAnalysis := Some a\<rparr>, None)
     \<and> set (heavyDependencies a) \<subseteq> declared (pkg_dependencies pkg)
     \<and> (\<forall>found \<in> set (duplicateDependencies a). set found \<subseteq> declared (pkg_dependencies pkg))
     \<and> (\<forall>name. name \<notin> declared (pkg_dependencies pkg) \<longrightarrow>
           name \<notin> set (heavyDependencies a)
           \<and> (\<forall>found \<in> set (duplicateDependencies a). name \<notin> set found))
     \<and> totalDevDependencies a = length (case pkg_devDependencies pkg of None \<Rightarrow> [] | Some d \<Rightarrow> d)
     \<and> (\<forall>dev. analyzeDependencies (e\<lparr>manifest := Manifest (pkg\<lparr>pkg_devDependencies := dev\<rparr>)\<rparr>)
              projectRoot results
            = (results\<lparr>dependencyAnalysis := Some
                 (a\<lparr>totalDevDependencies := length (case dev of None \<Rightarrow> [] | Some d \<Rightarrow> d)\<rparr>)\<rparr>, None))"
proof -
  let ?deps = "case pkg_dependencies pkg of None \<Rightarrow> [] | Some d \<Rightarrow> d"
  let ?a = "\<lparr>totalDependencies = length ?deps,
         totalDevDependencies = length (case pkg_devDependencies pkg of None \<Rightarrow> [] | Some d \<Rightarrow> d),
         heavyDependencies =
           filter (\<lambda>dep. list_ex (\<lambda>heavy. str_includes dep heavy) heavyList) (map fst ?deps),
         duplicateDependencies = findDuplicateDependencies ?deps\<rparr>"
  have d: "declared (pkg_dependencies pkg) = fst ` set ?deps"
    by (simp add: declared_def split: option.split)
  have run: "analyzeDependencies e projectRoot results = (results\<lparr>dependencyAnalysis := Some ?a\<rparr>, None)"
    by (rule analyzeDependencies_Manifest [OF assms])
  have heavy: "set (heavyDependencies ?a) \<subseteq> declared (pkg_dependencies pkg)"
    unfolding d by auto
  have dup: "\<forall>found \<in> set (duplicateDependencies ?a). set found \<subseteq> declared (pkg_dependencies pkg)"
    unfolding d using findDuplicateDependencies_names [of _ ?deps] by auto
  from heavy dup
  have never: "\<forall>name. name \<notin> declared (pkg_dependencies pkg) \<longrightarrow>
           name \<notin> set (heavyDependencies ?a)
           \<and> (\<forall>found \<in> set (duplicateDependencies ?a). name \<notin> set found)"
    by blast
  have dev: "totalDevDependencies ?a = length (case pkg_devDependencies pkg of None \<Rightarrow> [] | Some d \<Rightarrow> d)"
    by simp
  have indep: "\<forall>dev. analyzeDependencies (e\<lparr>manifest := Manifest (pkg\<lparr>pkg_devDependencies := dev\<rparr>)\<rparr>)
              projectRoot results
            = (results\<lparr>dependencyAnalysis := Some
                 (?a\<lparr>totalDevDependencies := length (case dev of None \<Rightarrow> [] | Some d \<Rightarrow> d)\<rparr>)\<rparr>, None)"
    by (simp add: analyzeDependencies_Manifest)
  from run heavy dup never dev indep show ?thesis by blast
qed

text \<open>A manifest with \<^verbatim>\<open>lodash\<close> and \<^verbatim>\<open>underscore\<close> under \<^verbatim>\<open>devDependencies\<close> only.\<close>

theorem analyzeDependencies_only_dependencies_witness:
  "manifest dev_only_project = Manifest
        \<lparr>pkg_dependencies = Some [(''react'', ''^18.0.0'')],
         pkg_devDependencies = Some [(''lodash'', ''^4.17.0''), (''underscore'', ''^1.13.0'')],
         pkg_scripts = None, pkg_sideEffects = False\<rparr>
   \<and> ''lodash'' \<notin> declared (Some [(''react'', ''^18.0.0'')])
   \<and> (\<exists>a. dependencyAnalysis (fst (analyzeDependencies dev_only_project [''project''] pa_initial)) = Some a
        \<and> ''lodash'' \<notin> set (heavyDependencies a)
        \<and> \<not> (\<exists>found \<in> set (duplicateDependencies a). ''lodash'' \<in> set found)
        \<and> totalDevDependencies a = 2)"
proof -
  let ?pkg = "\<lparr>pkg_dependencies = Some [(''react'', ''^18.0.0'')],
         pkg_devDependencies = Some [(''lodash'', ''^4.17.0''), (''underscore'', ''^1.13.0'')],
         pkg_scripts = None, pkg_sideEffects = False\<rparr>"
  have m: "manifest dev_only_project = Manifest ?pkg"
    by (simp add: dev_only_project_def)
  have n: "''lodash'' \<notin> declared (Some [(''react'', ''^18.0.0'')])"
    by (simp add: declared_def)
  from analyzeDependencies_only_dependencies [OF m, of "[''project'']" pa_initial]
  obtain a where run: "analyzeDependencies dev_only_project [''project''] pa_initial
        = (pa_initial\<lparr>dependencyAnalysis := Some a\<rparr>, None)"
    and never: "\<forall>name. name \<notin> declared (pkg_dependencies ?pkg) \<longrightarrow>
           name \<notin> set (heavyDependencies a)
           \<and> (\<forall>found \<in> set (duplicateDependencies a). name \<notin> set found)"
    and dev: "totalDevDependencies a = length (case pkg_devDependencies ?pkg of None \<Rightarrow> [] | Some d \<Rightarrow> d)"
    by blast
  from never n have "''lodash'' \<notin> set (heavyDependencies a)"
    and "\<not> (\<exists>found \<in> set (duplicateDependencies a). ''lodash'' \<in> set found)"
    by auto
  moreover from dev have "totalDevDependencies a = 2" by simp
  moreover from run have "dependencyAnalysis (fst (analyzeDependencies dev_only_project [''project''] pa_initial)) = Some a"
    by simp
  ultimately show ?thesis using m n by blast
qed

subsection \<open>The code patterns\<close>

lemma scan_line_fields:
  "inlineStyles (scan_line r f p il) = inlineStyles p + (if inline_style_line (snd il) then 1 else 0)"
  "consoleStatements (scan_line r f p il) = consoleStatements p + (if console_line (snd il) then 1 else 0)"
  "inefficientPatterns (scan_line r f p il) =
     inefficientPatterns p @ (if dom_query_line (snd il) then [dom_issue r f il] else [])"
  "largeFiles (scan_line r f p il) = largeFiles p"
  "unusedImports (scan_line r f p il) = unusedImports p"
  by (simp_all add: scan_line_def Let_def inline_style_line_def console_line_def
      dom_query_line_def dom_issue_def)

lemma foldl_scan_line:
  "inlineStyles (foldl (scan_line r f) p ils)
     = inlineStyles p + length (filter (\<lambda>il. inline_style_line (snd il)) ils)"
  "consoleStatements (foldl (scan_line r f) p ils)
     = consoleStatements p + length (filter (\<lambda>il. console_line (snd il)) ils)"
  "inefficientPatterns (foldl (scan_line r f) p ils)
     = inefficientPatterns p @ map (dom_issue r f) (filter (\<lambda>il. dom_query_line (snd il)) ils)"
  "largeFiles (foldl (scan_line r f) p ils) = largeFiles p"
  "unusedImports (foldl (scan_line r f) p ils) = unusedImports p"
  by (induction ils arbitrary: p) (simp_all add: scan_line_fields)

lemma count_numbered:
  "length (filter (\<lambda>il. P (snd il)) (numbered_lines content))
     = length (filter P (split_lines content))"
proof -
  have "map snd (filter (\<lambda>il. P (snd il)) (numbered_lines content))
          = filter P (map snd (numbered_lines content))"
    by (simp add: filter_map comp_def)
  also have "map snd (numbered_lines content) = split_lines content"
    by (simp add: numbered_lines_def)
  finally have "length (map snd (filter (\<lambda>il. P (snd il)) (numbered_lines content)))
                  = length (filter P (split_lines content))"
    by simp
  then show ?thesis by simp
qed

lemma scan_file_readable:
  assumes "readFileSync e r file = Inr content" and "statSync e r file = Inr sz"
  shows "scan_file e r p file =
           foldl (scan_line r file)
             (if sz > 100000
              then p\<lparr>largeFiles := largeFiles p @ [(path_relative r file, (sz + 512) div 1024)]\<rparr>
              else p)
             (numbered_lines content)"
  using assms by (simp add: scan_file_def Let_def numbered_lines_def)

text \<open>
  Claim C5, as the code has it. A file that cannot be read leaves the patterns as
  they are. For a file that is read, the scanner adds to the counter
  \<^verbatim>\<open>consoleStatements\<close> the number of lines that contain \<^verbatim>\<open>console.\<close>, adds to the
  counter \<^verbatim>\<open>inlineStyles\<close> the number of lines with an inline style, and appends to
  \<^verbatim>\<open>inefficientPatterns\<close> one entry, with the file and the 1-based line number, for
  every line with a DOM query, in line order. Console statements and inline styles
  are counted only: the file with \<^verbatim>\<open>console.log("x")\<close> on two lines adds 2 to
  \<^verbatim>\<open>consoleStatements\<close> and no entry.
\<close>

theorem scan_file_patterns:
  "(\<forall>err. readFileSync e projectRoot file = Inl err \<longrightarrow> scan_file e projectRoot p file = p)
   \<and> (\<forall>content sz. readFileSync e projectRoot file = Inr content
          \<and> statSync e projectRoot file = Inr sz \<longrightarrow>
        consoleStatements (scan_file e projectRoot p file)
          = consoleStatements p + length (filter console_line (split_lines content))
        \<and> inlineStyles (scan_file e projectRoot p file)
          = inlineStyles p + length (filter inline_style_line (split_lines content))
        \<and> inefficientPatterns (scan_file e projectRoot p file)
          = inefficientPatterns p @
              map (dom_issue projectRoot file)
                (filter (\<lambda>il. dom_query_line (snd il)) (numbered_lines content))
        \<and> (content = two_logs \<longrightarrow>
             consoleStatements (scan_file e projectRoot p file) = consoleStatements p + 2
             \<and> inlineStyles (scan_file e projectRoot p file) = inlineStyles p
             \<and> inefficientPatterns (scan_file e projectRoot p file) = inefficientPatterns p))"
proof -
  have unread: "\<forall>err. readFileSync e projectRoot file = Inl err \<longrightarrow> scan_file e projectRoot p file = p"
    by (simp add: scan_file_def)
  have read: "consoleStatements (scan_file e projectRoot p file)
          = consoleStatements p + length (filter console_line (split_lines content))
        \<and> inlineStyles (scan_file e projectRoot p file)
          = inlineStyles p + length (filter inline_style_line (split_lines content))
        \<and> inefficientPatterns (scan_file e projectRoot p file)
          = inefficientPatterns p @
              map (dom_issue projectRoot file)
                (filter (\<lambda>il. dom_query_line (snd il)) (numbered_lines content))"
    if "readFileSync e projectRoot file = Inr content" and "statSync e projectRoot file = Inr sz"
    for content sz
    unfolding scan_file_readable [OF that]
    by (simp add: foldl_scan_line count_numbered)
  have two: "split_lines two_logs = [log_line, log_line]"
    by (simp add: two_logs_def log_line_def)
  have c: "console_line log_line"
    and s: "\<not> inline_style_line log_line"
    and d: "\<not> dom_query_line log_line"
    by (simp_all add: console_line_def inline_style_line_def dom_query_line_def str_includes_def
        sublist_code log_line_def)
  have inst: "consoleStatements (scan_file e projectRoot p file) = consoleStatements p + 2
             \<and> inlineStyles (scan_file e projectRoot p file) = inlineStyles p
             \<and> inefficientPatterns (scan_file e projectRoot p file) = inefficientPatterns p"
    if "readFileSync e projectRoot file = Inr content" and "statSync e projectRoot file = Inr sz"
      and "content = two_logs"
    for content sz
    using read [OF that(1,2)] c s d
    by (simp add: that(3) two numbered_lines_def)
  from unread read inst show ?thesis by blast
qed

lemma two_logs_read:
  "readFileSync two_logs_project [''project''] [''project'', ''app.js''] = Inr two_logs"
  "statSync two_logs_project [''project''] [''project'', ''app.js''] = Inr 33"
  by (simp_all add: readFileSync_def statSync_def node_at_def two_logs_project_def)

text \<open>The file \<^verbatim>\<open>app.js\<close> with \<^verbatim>\<open>console.log("x")\<close> on its two lines.\<close>

theorem scan_file_patterns_witness:
  "readFileSync two_logs_project [''project''] [''project'', ''app.js''] = Inr two_logs
   \<and> statSync two_logs_project [''project''] [''project'', ''app.js''] = Inr 33
   \<and> consoleStatements (scan_file two_logs_project [''project''] no_patterns [''project'', ''app.js'']) = 2
   \<and> inefficientPatterns (scan_file two_logs_project [''project''] no_patterns [''project'', ''app.js'']) = []"
proof -
  from scan_file_patterns [of two_logs_project "[''project'']" "[''project'', ''app.js'']" no_patterns]
    two_logs_read
  have "consoleStatements (scan_file two_logs_project [''project''] no_patterns [''project'', ''app.js''])
          = consoleStatements no_patterns + 2
        \<and> inefficientPatterns (scan_file two_logs_project [''project''] no_patterns [''project'', ''app.js''])
          = inefficientPatterns no_patterns"
    by blast
  with two_logs_read show ?thesis by (simp add: no_patterns_def)
qed

lemma two_logs_files:
  "findFiles_at two_logs_project [''project''] code_extensions [''project'']
     = Inr [[''project'', ''app.js'']]"
  by (simp add: findFiles_at_def node_at_def two_logs_project_def startsWith_def
      path_extname_def code_extensions_def path_join_def)

text \<open>
  Claim C5 as stated fails: for a project whose only file has \<^verbatim>\<open>console.log("x")\<close>
  on two lines, the code analysis holds the count 2 and no entry at all, so no line
  number is reported for either occurrence.
\<close>

theorem analyzeCodePatterns_two_logs_counterexample:
  "analyzeCodePatterns two_logs_project [''project''] pa_initial
     = (pa_initial\<lparr>codeAnalysis := Some
          \<lparr>largeFiles = [], inefficientPatterns = [], unusedImports = [],
           inlineStyles = 0, consoleStatements = 2\<rparr>\<rparr>, None)"
proof -
  let ?p = "scan_file two_logs_project [''project''] no_patterns [''project'', ''app.js'']"
  have two: "split_lines two_logs = [log_line, log_line]"
    by (simp add: two_logs_def log_line_def)
  have c: "console_line log_line"
    and s: "\<not> inline_style_line log_line"
    and d: "\<not> dom_query_line log_line"
    by (simp_all add: console_line_def inline_style_line_def dom_query_line_def str_includes_def
        sublist_code log_line_def)
  have p: "?p = foldl (scan_line [''project''] [''project'', ''app.js'']) no_patterns
                  (numbered_lines two_logs)"
    using scan_file_readable [OF two_logs_read, of no_patterns] by simp
  have "?p = \<lparr>largeFiles = [], inefficientPatterns = [], unusedImports = [],
           inlineStyles = 0, consoleStatements = 2\<rparr>"
    unfolding p using c s d
    by (intro code_patterns.equality)
      (simp_all add: scan_line_fields numbered_lines_def two no_patterns_def)
  then show ?thesis
    by (simp add: analyzeCodePatterns_def two_logs_files)
qed

subsection \<open>The analysis of a build directory\<close>

lemma analyze_files_Cons:
  assumes "statSync e r file = Inr sz"
  shows "analyze_files e r a (file # rest) =
     analyze_files e r
       \<lparr>totalSize = totalSize a + stat_size e r file,
        fileCount = fileCount a + 1,
        jsFiles = jsFiles a @ (if is_script file then [file_info e r file] else []),
        cssFiles = cssFiles a @ (if is_style file then [file_info e r file] else []),
        assetFiles = assetFiles a @ (if is_asset file then [file_info e r file] else []),
        largestFiles = largestFiles a
          @ (if stat_size e r file > 100000 then [file_info e r file] else [])\<rparr>
       rest"
  using assms
  by (cases a)
    (simp add: Let_def stat_size_def file_info_def is_script_def is_style_def is_asset_def
      ext_of_def)

lemma analyze_files_Inr:
  assumes "analyze_files e r a found = Inr a'"
  shows "(\<forall>file \<in> set found. \<exists>sz. statSync e r file = Inr sz)
     \<and> a' = \<lparr>totalSize = totalSize a + sum_list (map (stat_size e r) found),
             fileCount = fileCount a + length found,
             jsFiles = jsFiles a @ map (file_info e r) (filter is_script found),
             cssFiles = cssFiles a @ map (file_info e r) (filter is_style found),
             assetFiles = assetFiles a @ map (file_info e r) (filter is_asset found),
             largestFiles = largestFiles a
               @ map (file_info e r) (filter (\<lambda>file. stat_size e r file > 100000) found)\<rparr>"
  using assms
proof (induction found arbitrary: a)
  case Nil
  then show ?case by simp
next
  case (Cons f rest)
  show ?case
  proof (cases "statSync e r f")
    case (Inl err)
    with Cons.prems show ?thesis by simp
  next
    case (Inr sz)
    from Cons.prems have run: "analyze_files e r
       \<lparr>totalSize = totalSize a + stat_size e r f,
        fileCount = fileCount a + 1,
        jsFiles = jsFiles a @ (if is_script f then [file_info e r f] else []),
        cssFiles = cssFiles a @ (if is_style f then [file_info e r f] else []),
        assetFiles = assetFiles a @ (if is_asset f then [file_info e r f] else []),
        largestFiles = largestFiles a
          @ (if stat_size e r f > 100000 then [file_info e r f] else [])\<rparr>
       rest = Inr a'"
      unfolding analyze_files_Cons [OF Inr] .
    from Cons.IH [OF run] Inr show ?thesis by simp
  qed
qed

lemma analyze_files_total:
  assumes "\<forall>file \<in> set found. \<exists>sz. statSync e r file = Inr sz"
  shows "\<exists>a'. analyze_files e r a found = Inr a'"
  using assms
proof (induction found arbitrary: a)
  case Nil
  then show ?case by simp
next
  case (Cons f rest)
  then obtain sz where sz: "statSync e r f = Inr sz" by auto
  from Cons.prems have "\<forall>file \<in> set rest. \<exists>sz. statSync e r file = Inr sz" by simp
  from Cons.IH [OF this] show ?case unfolding analyze_files_Cons [OF sz] by blast
qed

lemma partition_lengths:
  "length (filter is_script found) + length (filter is_style found)
     + length (filter is_asset found) = length found"
  by (induction found) (auto simp add: is_script_def is_style_def is_asset_def)

lemma length_sort_by_size: "length (sort_by_size xs) = length xs"
  by (simp add: sort_by_size_def)

lemma analyzeBuildDirectory_Inr:
  assumes "analyzeBuildDirectory e r dirPath = Inr a"
  shows "\<exists>found. getAllFiles_at e r dirPath = Inr found
     \<and> (\<forall>file \<in> set found. \<exists>sz. statSync e r file = Inr sz)
     \<and> a = \<lparr>totalSize = sum_list (map (stat_size e r) found),
             fileCount = length found,
             jsFiles = sort_by_size (map (file_info e r) (filter is_script found)),
             cssFiles = sort_by_size (map (file_info e r) (filter is_style found)),
             assetFiles = map (file_info e r) (filter is_asset found),
             largestFiles = sort_by_size
               (map (file_info e r) (filter (\<lambda>file. stat_size e r file > 100000) found))\<rparr>"
proof (cases "getAllFiles_at e r dirPath")
  case (Inl err)
  with assms show ?thesis by (simp add: analyzeBuildDirectory_def)
next
  case (Inr found)
  show ?thesis
  proof (cases "analyze_files e r empty_analysis found")
    case (Inl err)
    with assms Inr show ?thesis by (simp add: analyzeBuildDirectory_def empty_analysis_def)
  next
    case inner: (Inr a')
    from analyze_files_Inr [OF inner] assms Inr inner show ?thesis
      by (simp add: analyzeBuildDirectory_def empty_analysis_def)
  qed
qed

subsection \<open>The walkers and the tree\<close>

lemma getAllFiles_tree:
  "isDirectory n \<Longrightarrow>
     getAllFiles d n =
       (if all_readable n then Inr (map (\<lambda>ps. d @ fst ps) (tree_files n)) else Inl EACCES)"
  "getAllFiles_entries d es =
       (if all_readable_entries es then Inr (map (\<lambda>ps. d @ fst ps) (tree_files_entries es))
        else Inl EACCES)"
proof (induction d n and d es rule: getAllFiles_getAllFiles_entries.induct)
  case (5 dirPath name node rest)
  show ?case
  proof (cases node)
    case (File sz c)
    with 5 show ?thesis by (simp add: path_join_def)
  next
    case (Dir r es)
    with 5 show ?thesis by (simp add: path_join_def comp_def)
  next
    case Other
    with 5 show ?thesis by simp
  qed
qed simp_all

lemma findFiles_tree:
  "isDirectory n \<Longrightarrow>
     findFiles exts d n =
       (if entered_readable n then Inr (map (\<lambda>p. d @ p) (code_files exts n)) else Inl EACCES)"
  "findFiles_entries exts d es =
       (if entered_readable_entries es then Inr (map (\<lambda>p. d @ p) (code_files_entries exts es))
        else Inl EACCES)"
proof (induction exts d n and exts d es rule: findFiles_findFiles_entries.induct)
  case (5 extensions dir name node rest)
  note IH = 5
  show ?case
  proof (cases "isDirectory node \<and> \<not> startsWith name ''.'' \<and> name \<noteq> ''node_modules''")
    case True
    then obtain r es where node: "node = Dir r es" by (cases node) auto
    from True have ent: "entered name" by (simp add: entered_def)
    have er_eq: "entered_readable_entries ((name, node) # rest)
                   = (entered_readable node \<and> entered_readable_entries rest)"
      using ent by simp
    have cf_eq: "code_files_entries extensions ((name, node) # rest)
                   = map (\<lambda>p. name # p) (code_files extensions node)
                     @ code_files_entries extensions rest"
      using ent node by simp
    from IH(1) [OF True] True
    have sub: "findFiles extensions (path_join dir name) node =
        (if entered_readable node
         then Inr (map (\<lambda>p. path_join dir name @ p) (code_files extensions node))
         else Inl EACCES)"
      by simp
    show ?thesis
    proof (cases "entered_readable node")
      case False
      with sub have "findFiles extensions (path_join dir name) node = Inl EACCES" by simp
      with True False show ?thesis unfolding er_eq cf_eq by simp
    next
      case er: True
      with sub have sub': "findFiles extensions (path_join dir name) node =
          Inr (map (\<lambda>p. path_join dir name @ p) (code_files extensions node))"
        by simp
      from IH(2) [OF True sub']
      have "findFiles_entries extensions dir rest =
          (if entered_readable_entries rest
           then Inr (map (\<lambda>p. dir @ p) (code_files_entries extensions rest))
           else Inl EACCES)" .
      with True sub' er show ?thesis unfolding er_eq cf_eq
        by (simp add: path_join_def comp_def)
    qed
  next
    case nd: False
    then have skip: "\<And>r es. node = Dir r es \<Longrightarrow> \<not> entered name"
      by (auto simp add: entered_def)
    show ?thesis
    proof (cases "isFile node \<and> path_extname name \<in> set extensions")
      case True
      then obtain sz c where node: "node = File sz c" by (cases node) auto
      from IH(3) [OF nd True] nd True node show ?thesis
        by (simp add: path_join_def)
    next
      case False
      from IH(4) [OF nd False] nd False skip show ?thesis
        by (cases node) (auto simp add: entered_def)
    qed
  qed
qed simp_all

text \<open>
  Claim C6, as the code has it. Neither walker handles an error: called on a
  directory, \<^verbatim>\<open>getAllFiles\<close> returns files exactly when every directory of the tree
  can be read, and \<^verbatim>\<open>findFiles\<close> exactly when every directory it enters can be
  read; they then return all the files of the listing. Otherwise the error of
  \<^verbatim>\<open>readdirSync\<close> leaves the walker and the walk returns no file at all.
\<close>

theorem walkers_unreadable_directory:
  "(\<exists>found. getAllFiles dirPath (Dir r es) = Inr found) = all_readable (Dir r es)
   \<and> (getAllFiles dirPath (Dir r es) = Inl EACCES) = (\<not> all_readable (Dir r es))
   \<and> (all_readable (Dir r es) \<longrightarrow>
        getAllFiles dirPath (Dir r es)
          = Inr (map (\<lambda>ps. dirPath @ fst ps) (tree_files (Dir r es))))
   \<and> (\<exists>found. findFiles extensions dirPath (Dir r es) = Inr found) = entered_readable (Dir r es)
   \<and> (findFiles extensions dirPath (Dir r es) = Inl EACCES) = (\<not> entered_readable (Dir r es))
   \<and> (entered_readable (Dir r es) \<longrightarrow>
        findFiles extensions dirPath (Dir r es)
          = Inr (map (\<lambda>p. dirPath @ p) (code_files extensions (Dir r es))))"
proof -
  have g: "getAllFiles dirPath (Dir r es) =
       (if all_readable (Dir r es)
        then Inr (map (\<lambda>ps. dirPath @ fst ps) (tree_files (Dir r es))) else Inl EACCES)"
    by (rule getAllFiles_tree(1)) simp
  have f: "findFiles extensions dirPath (Dir r es) =
       (if entered_readable (Dir r es)
        then Inr (map (\<lambda>p. dirPath @ p) (code_files extensions (Dir r es))) else Inl EACCES)"
    by (rule findFiles_tree(1)) simp
  show ?thesis unfolding g f by simp
qed

text \<open>A tree of which \<^verbatim>\<open>findFiles\<close> enters every directory but the unreadable
  \<^verbatim>\<open>.git\<close>.\<close>

theorem walkers_unreadable_directory_witness:
  "entered_readable (Dir True open_entries)
   \<and> findFiles code_extensions [''project''] (Dir True open_entries)
       = Inr [[''project'', ''main.js''], [''project'', ''lib'', ''util.js'']]
   \<and> \<not> all_readable (Dir True open_entries)
   \<and> getAllFiles [''project''] (Dir True open_entries) = Inl EACCES"
proof -
  note t = walkers_unreadable_directory [of "[''project'']" True open_entries code_extensions]
  have er: "entered_readable (Dir True open_entries)"
    by (simp add: open_entries_def entered_def startsWith_def)
  have ar: "\<not> all_readable (Dir True open_entries)"
    by (simp add: open_entries_def)
  have cf: "code_files code_extensions (Dir True open_entries)
              = [[''main.js''], [''lib'', ''util.js'']]"
    by (simp add: open_entries_def entered_def startsWith_def code_extensions_def path_extname_def)
  from t er have "findFiles code_extensions [''project''] (Dir True open_entries)
       = Inr (map (\<lambda>p. [''project''] @ p) (code_files code_extensions (Dir True open_entries)))"
    by blast
  then have f: "findFiles code_extensions [''project''] (Dir True open_entries)
       = Inr [[''project'', ''main.js''], [''project'', ''lib'', ''util.js'']]"
    unfolding cf by simp
  from t ar have g: "getAllFiles [''project''] (Dir True open_entries) = Inl EACCES"
    by blast
  from er f ar g show ?thesis by blast
qed

text \<open>
  Claim C6 as stated fails: below a directory with a readable file and an unreadable
  subdirectory, both walkers end with the error of \<^verbatim>\<open>readdirSync\<close> and return
  nothing, not even the readable file.
\<close>

theorem walkers_locked_tree_counterexample:
  "findFiles code_extensions [''project''] locked_tree = Inl EACCES
   \<and> getAllFiles [''project''] locked_tree = Inl EACCES
   \<and> findFiles code_extensions [''project'']
        (Dir True [(''main.js'', File (Some 10) (Some ''let x''))]) = Inr [[''project'', ''main.js'']]"
  by (simp add: locked_tree_def startsWith_def path_join_def code_extensions_def path_extname_def)

subsection \<open>The totals of a build directory\<close>

lemma fs_lookup_append:
  "fs_lookup n (p @ q) = (case fs_lookup n p of None \<Rightarrow> None | Some m \<Rightarrow> fs_lookup m q)"
proof (induction n p rule: fs_lookup.induct)
  case (2 r es s ss)
  then show ?case by (cases "map_of es s") simp_all
qed simp_all

lemma node_at_append:
  assumes "node_at e r d = Some n"
  shows "node_at e r (d @ p) = fs_lookup n p"
proof -
  from assms have pre: "prefix r d" and look: "fs_lookup (tree e) (drop (length r) d) = Some n"
    by (simp_all add: node_at_def split: if_splits)
  from pre have "prefix r (d @ p)" by (rule prefix_prefix)
  moreover from pre have "drop (length r) (d @ p) = drop (length r) d @ p"
    by (auto simp add: prefix_def)
  ultimately show ?thesis using look by (simp add: node_at_def fs_lookup_append)
qed

lemma tree_files_heads:
  "(p, s) \<in> set (tree_files_entries es) \<Longrightarrow> \<exists>name rest. p = name # rest \<and> name \<in> fst ` set es"
proof (induction es)
  case Nil
  then show ?case by simp
next
  case (Cons entry es)
  obtain name node where entry: "entry = (name, node)" by (cases entry)
  from Cons.prems entry
  consider (first) "(p, s) \<in> set (case node of
        File sz c \<Rightarrow> [([name], sz)]
      | Dir r es \<Rightarrow> map (\<lambda>ps. (name # fst ps, snd ps)) (tree_files node)
      | Other \<Rightarrow> [])"
    | (later) "(p, s) \<in> set (tree_files_entries es)"
    by auto
  then show ?case
  proof cases
    case first
    then have "\<exists>rest. p = name # rest" by (cases node) auto
    with entry show ?thesis by auto
  next
    case later
    from Cons.IH [OF later] show ?thesis by auto
  qed
qed

lemma tree_files_lookup:
  "distinct_names n \<Longrightarrow> (p, s) \<in> set (tree_files n) \<Longrightarrow> \<exists>c. fs_lookup n p = Some (File s c)"
  "distinct (map fst es) \<Longrightarrow> distinct_names_entries es \<Longrightarrow> (p, s) \<in> set (tree_files_entries es)
     \<Longrightarrow> \<exists>c. fs_lookup (Dir r es) p = Some (File s c)"
proof (induction n and es arbitrary: p s and p s r rule: tree_files_tree_files_entries.induct)
  case (1 r' es)
  then show ?case by simp
next
  case (2 sz c)
  then show ?case by simp
next
  case 3
  then show ?case by simp
next
  case 4
  then show ?case by simp
next
  case (5 name node rest)
  from "5.prems"(1) have fresh: "name \<notin> fst ` set rest" and drest: "distinct (map fst rest)"
    by simp_all
  from "5.prems"(2) have dn: "distinct_names node" and dr: "distinct_names_entries rest"
    by simp_all
  from "5.prems"(3)
  consider (first) "(p, s) \<in> set (case node of
        File sz c \<Rightarrow> [([name], sz)]
      | Dir r es \<Rightarrow> map (\<lambda>ps. (name # fst ps, snd ps)) (tree_files node)
      | Other \<Rightarrow> [])"
    | (later) "(p, s) \<in> set (tree_files_entries rest)"
    by auto
  then show ?case
  proof cases
    case first
    show ?thesis
    proof (cases node)
      case (File sz c)
      with first show ?thesis by simp
    next
      case (Dir r' es')
      with first obtain p' where p: "p = name # p'" and mem: "(p', s) \<in> set (tree_files node)"
        by auto
      from "5.IH"(1) [OF Dir dn mem] p show ?thesis by simp
    next
      case Other
      with first show ?thesis by simp
    qed
  next
    case later
    from tree_files_heads [OF later] obtain n' p' where p: "p = n' # p'" and n': "n' \<in> fst ` set rest"
      by blast
    from n' fresh have "n' \<noteq> name" by auto
    with "5.IH"(2) [OF drest dr later, of r] p show ?thesis by simp
  qed
qed

lemma tree_files_distinct:
  "distinct_names n \<Longrightarrow> distinct (map fst (tree_files n))"
  "distinct (map fst es) \<Longrightarrow> distinct_names_entries es \<Longrightarrow> distinct (map fst (tree_files_entries es))"
proof (induction n and es rule: tree_files_tree_files_entries.induct)
  case (5 name node rest)
  from "5.prems"(1) have fresh: "name \<notin> fst ` set rest" and drest: "distinct (map fst rest)"
    by simp_all
  from "5.prems"(2) have dn: "distinct_names node" and dr: "distinct_names_entries rest"
    by simp_all
  let ?first = "case node of
        File sz c \<Rightarrow> [([name], sz)]
      | Dir r es \<Rightarrow> map (\<lambda>ps. (name # fst ps, snd ps)) (tree_files node)
      | Other \<Rightarrow> []"
  have d1: "distinct (map fst ?first)"
  proof (cases node)
    case (Dir r' es')
    from "5.IH"(1) [OF Dir dn] have "distinct (map fst (tree_files node))" .
    then have "distinct (map (\<lambda>p. name # p) (map fst (tree_files node)))"
      by (simp add: distinct_map inj_on_def)
    with Dir show ?thesis by (simp add: comp_def)
  qed simp_all
  have d2: "distinct (map fst (tree_files_entries rest))"
    by (rule "5.IH"(2) [OF drest dr])
  have heads: "\<forall>p \<in> fst ` set ?first. \<exists>p'. p = name # p'"
    by (cases node) auto
  have disjoint: "fst ` set ?first \<inter> fst ` set (tree_files_entries rest) = {}"
  proof (rule ccontr)
    assume "fst ` set ?first \<inter> fst ` set (tree_files_entries rest) \<noteq> {}"
    then obtain p where a: "p \<in> fst ` set ?first" and b: "p \<in> fst ` set (tree_files_entries rest)"
      by blast
    from a heads obtain p' where p: "p = name # p'" by blast
    from b obtain s where "(p, s) \<in> set (tree_files_entries rest)" by auto
    from tree_files_heads [OF this] p have "name \<in> fst ` set rest" by auto
    with fresh show False by contradiction
  qed
  from d1 d2 disjoint show ?case by simp
qed simp_all

lemma tree_files_stat:
  assumes "node_at e r d = Some n" and "distinct_names n" and "(p, s) \<in> set (tree_files n)"
  shows "statSync e r (d @ p) = (case s of None \<Rightarrow> Inl EACCES | Some sz \<Rightarrow> Inr sz)"
proof -
  from tree_files_lookup(1) [OF assms(2,3)] obtain c where "fs_lookup n p = Some (File s c)" ..
  with node_at_append [OF assms(1), of p] show ?thesis
    by (cases s) (simp_all add: statSync_def)
qed

lemma tree_files_stat_size:
  assumes "node_at e r d = Some n" and "distinct_names n"
  shows "map (stat_size e r) (map (\<lambda>ps. d @ fst ps) (tree_files n)) = tree_sizes n"
proof -
  have "stat_size e r (d @ fst ps) = (case snd ps of None \<Rightarrow> 0 | Some sz \<Rightarrow> sz)"
    if "ps \<in> set (tree_files n)" for ps
  proof -
    from that have "(fst ps, snd ps) \<in> set (tree_files n)" by simp
    from tree_files_stat [OF assms this] show ?thesis
      by (cases "snd ps") (simp_all add: stat_size_def)
  qed
  then show ?thesis by (simp add: tree_sizes_def)
qed

lemma tree_files_statable:
  assumes "node_at e r d = Some n" and "distinct_names n"
  shows "(\<forall>f \<in> set (map (\<lambda>ps. d @ fst ps) (tree_files n)). \<exists>sz. statSync e r f = Inr sz)
           = all_statable n"
proof -
  have "(\<exists>sz. statSync e r (d @ fst ps) = Inr sz) = (snd ps \<noteq> None)"
    if "ps \<in> set (tree_files n)" for ps
  proof -
    from that have "(fst ps, snd ps) \<in> set (tree_files n)" by simp
    from tree_files_stat [OF assms this] show ?thesis
      by (cases "snd ps") simp_all
  qed
  then show ?thesis by (simp add: all_statable_def list_all_iff)
qed

lemma analyzeBuildDirectory_returns:
  assumes at: "node_at e r d = Some n" and dir: "isDirectory n" and names: "distinct_names n"
  shows "(\<exists>a. analyzeBuildDirectory e r d = Inr a) = (all_readable n \<and> all_statable n)"
proof
  assume "\<exists>a. analyzeBuildDirectory e r d = Inr a"
  then obtain a where a: "analyzeBuildDirectory e r d = Inr a" ..
  from analyzeBuildDirectory_Inr [OF a] obtain found
    where found: "getAllFiles_at e r d = Inr found"
      and stat: "\<forall>f \<in> set found. \<exists>sz. statSync e r f = Inr sz"
    by blast
  from found at getAllFiles_tree(1) [OF dir, of d]
  have readable: "all_readable n" and eq: "found = map (\<lambda>ps. d @ fst ps) (tree_files n)"
    by (simp_all add: getAllFiles_at_def split: if_splits)
  from stat tree_files_statable [OF at names] have "all_statable n" unfolding eq by blast
  with readable show "all_readable n \<and> all_statable n" ..
next
  assume ok: "all_readable n \<and> all_statable n"
  let ?found = "map (\<lambda>ps. d @ fst ps) (tree_files n)"
  from getAllFiles_tree(1) [OF dir, of d] ok at
  have found: "getAllFiles_at e r d = Inr ?found"
    by (simp add: getAllFiles_at_def)
  from ok tree_files_statable [OF at names]
  have "\<forall>f \<in> set ?found. \<exists>sz. statSync e r f = Inr sz" by blast
  from analyze_files_total [OF this, of empty_analysis]
  obtain a' where a': "analyze_files e r empty_analysis ?found = Inr a'" ..
  with found show "\<exists>a. analyzeBuildDirectory e r d = Inr a"
    by (simp add: analyzeBuildDirectory_def empty_analysis_def)
qed

lemma analyzeBuildDirectory_tree:
  assumes at: "node_at e r d = Some n" and dir: "isDirectory n" and names: "distinct_names n"
    and readable: "all_readable n" and statable: "all_statable n"
  shows "\<exists>a. analyzeBuildDirectory e r d = Inr a
           \<and> getAllFiles_at e r d = Inr (map (\<lambda>ps. d @ fst ps) (tree_files n))
           \<and> totalSize a = sum_list (tree_sizes n)
           \<and> fileCount a = length (tree_files n)"
proof -
  let ?found = "map (\<lambda>ps. d @ fst ps) (tree_files n)"
  from analyzeBuildDirectory_returns [OF at dir names] readable statable
  obtain a where a: "analyzeBuildDirectory e r d = Inr a" by blast
  from getAllFiles_tree(1) [OF dir, of d] readable at
  have found: "getAllFiles_at e r d = Inr ?found"
    by (simp add: getAllFiles_at_def)
  from analyzeBuildDirectory_Inr [OF a] found
  have t0: "totalSize a = sum_list (map (stat_size e r) ?found)"
    and cnt: "fileCount a = length (tree_files n)"
    by (auto simp del: map_map)
  from t0 have tot: "totalSize a = sum_list (tree_sizes n)"
    unfolding tree_files_stat_size [OF at names] .
  from a found tot cnt show ?thesis by blast
qed

lemma is_script_join: "is_script (d @ [name]) = is_script [name]"
  by (simp add: is_script_def ext_of_def path_basename_def)

lemma sort_by_size_single: "sort_by_size [x] = [x]"
  by (simp add: sort_by_size_def)

text \<open>
  Claim C2. Whenever \<^verbatim>\<open>analyzeBuildDirectory\<close> returns an analysis, every file that
  \<^verbatim>\<open>getAllFiles\<close> discovered has been measured with \<^verbatim>\<open>statSync\<close>, \<^verbatim>\<open>totalSize\<close> is the
  sum of those sizes over the list of discovered files and \<^verbatim>\<open>fileCount\<close> is the
  length of that list. For a directory (names within a directory being distinct), the
  analysis is returned exactly when every directory below it can be read and
  \<^verbatim>\<open>statSync\<close> succeeds on every file listed; otherwise \<^verbatim>\<open>analyzeBuildDirectory\<close>
  throws, the \<^verbatim>\<open>statSync\<close> in its loop being unguarded, and reports no totals. When
  the analysis is returned, the discovered paths are pairwise distinct and the totals
  are those of the direct listing of the tree: no file is counted twice and none is
  skipped. For a build directory that holds exactly one script file, of which
  \<^verbatim>\<open>statSync\<close> reports 2 MB, \<^verbatim>\<open>totalSize\<close> is \<open>2 * 1024 * 1024\<close>, \<^verbatim>\<open>fileCount\<close> is 1, and
  the file is the one entry of \<^verbatim>\<open>largestFiles\<close> (and of \<^verbatim>\<open>jsFiles\<close>). The files
  discovered are the regular files: an entry that is neither a regular file nor a
  directory is passed over by \<^verbatim>\<open>getAllFiles\<close> and enters neither the count nor the
  total.
\<close>

theorem analyzeBuildDirectory_totals:
  "(\<forall>a. analyzeBuildDirectory e projectRoot dirPath = Inr a \<longrightarrow>
      (\<exists>found. getAllFiles_at e projectRoot dirPath = Inr found
         \<and> (\<forall>f \<in> set found. statSync e projectRoot f = Inr (stat_size e projectRoot f))
         \<and> totalSize a = sum_list (map (stat_size e projectRoot) found)
         \<and> fileCount a = length found))
   \<and> (\<forall>n. node_at e projectRoot dirPath = Some n \<and> isDirectory n \<and> distinct_names n \<longrightarrow>
        ((\<exists>a. analyzeBuildDirectory e projectRoot dirPath = Inr a)
            = (all_readable n \<and> all_statable n))
        \<and> ((\<exists>err. analyzeBuildDirectory e projectRoot dirPath = Inl err)
            = (\<not> (all_readable n \<and> all_statable n)))
        \<and> (all_readable n \<and> all_statable n \<longrightarrow>
             (\<exists>a. analyzeBuildDirectory e projectRoot dirPath = Inr a
                \<and> getAllFiles_at e projectRoot dirPath
                    = Inr (map (\<lambda>ps. dirPath @ fst ps) (tree_files n))
                \<and> distinct (map fst (tree_files n))
                \<and> totalSize a = sum_list (tree_sizes n)
                \<and> fileCount a = length (tree_files n))))
   \<and> (\<forall>name c. node_at e projectRoot dirPath
                   = Some (Dir True [(name, File (Some (2 * 1024 * 1024)) c)])
          \<and> is_script [name] \<longrightarrow>
        (\<exists>a. analyzeBuildDirectory e projectRoot dirPath = Inr a
           \<and> totalSize a = 2 * 1024 * 1024
           \<and> fileCount a = 1
           \<and> largestFiles a = [\<lparr>path = path_relative projectRoot (dirPath @ [name]),
                                 size_bytes = 2 * 1024 * 1024\<rparr>]
           \<and> jsFiles a = largestFiles a \<and> cssFiles a = [] \<and> assetFiles a = []))
   \<and> (\<forall>name rest. getAllFiles_entries dirPath ((name, Other) # rest)
                     = getAllFiles_entries dirPath rest)"
proof -
  have general: "\<exists>found. getAllFiles_at e projectRoot dirPath = Inr found
         \<and> (\<forall>f \<in> set found. statSync e projectRoot f = Inr (stat_size e projectRoot f))
         \<and> totalSize a = sum_list (map (stat_size e projectRoot) found)
         \<and> fileCount a = length found"
    if "analyzeBuildDirectory e projectRoot dirPath = Inr a" for a
  proof -
    from analyzeBuildDirectory_Inr [OF that] obtain found
      where found: "getAllFiles_at e projectRoot dirPath = Inr found"
        and stat: "\<forall>f \<in> set found. \<exists>sz. statSync e projectRoot f = Inr sz"
        and tot: "totalSize a = sum_list (map (stat_size e projectRoot) found)"
        and cnt: "fileCount a = length found"
      by auto
    from stat have "\<forall>f \<in> set found. statSync e projectRoot f = Inr (stat_size e projectRoot f)"
      by (auto simp add: stat_size_def)
    with found tot cnt show ?thesis by blast
  qed
  have returns: "(\<exists>a. analyzeBuildDirectory e projectRoot dirPath = Inr a)
            = (all_readable n \<and> all_statable n)"
    if "node_at e projectRoot dirPath = Some n" and "isDirectory n" and "distinct_names n" for n
    by (rule analyzeBuildDirectory_returns [OF that])
  have throws: "(\<exists>err. analyzeBuildDirectory e projectRoot dirPath = Inl err)
            = (\<not> (all_readable n \<and> all_statable n))"
    if "node_at e projectRoot dirPath = Some n" and "isDirectory n" and "distinct_names n" for n
    unfolding returns [OF that, symmetric]
    by (cases "analyzeBuildDirectory e projectRoot dirPath") simp_all
  have listing: "\<exists>a. analyzeBuildDirectory e projectRoot dirPath = Inr a
           \<and> getAllFiles_at e projectRoot dirPath
               = Inr (map (\<lambda>ps. dirPath @ fst ps) (tree_files n))
           \<and> distinct (map fst (tree_files n))
           \<and> totalSize a = sum_list (tree_sizes n)
           \<and> fileCount a = length (tree_files n)"
    if "node_at e projectRoot dirPath = Some n" and "isDirectory n" and "distinct_names n"
      and "all_readable n" and "all_statable n" for n
    using analyzeBuildDirectory_tree [OF that] tree_files_distinct(1) [OF that(3)]
    by blast
  have single: "\<exists>a. analyzeBuildDirectory e projectRoot dirPath = Inr a
           \<and> totalSize a = 2 * 1024 * 1024
           \<and> fileCount a = 1
           \<and> largestFiles a = [\<lparr>path = path_relative projectRoot (dirPath @ [name]),
                                 size_bytes = 2 * 1024 * 1024\<rparr>]
           \<and> jsFiles a = largestFiles a \<and> cssFiles a = [] \<and> assetFiles a = []"
    if at: "node_at e projectRoot dirPath
              = Some (Dir True [(name, File (Some (2 * 1024 * 1024)) c)])"
      and script: "is_script [name]" for name c
  proof -
    let ?n = "Dir True [(name, File (Some (2 * 1024 * 1024)) c)]"
    have "isDirectory ?n" "distinct_names ?n" "all_readable ?n" "all_statable ?n"
      by (simp_all add: all_statable_def)
    from listing [OF at this] obtain a
      where a: "analyzeBuildDirectory e projectRoot dirPath = Inr a"
        and found: "getAllFiles_at e projectRoot dirPath = Inr [dirPath @ [name]]"
      by auto
    from node_at_append [OF at, of "[name]"]
    have size: "stat_size e projectRoot (dirPath @ [name]) = 2 * 1024 * 1024"
      by (simp add: stat_size_def statSync_def)
    from script have s: "is_script (dirPath @ [name])" by (simp add: is_script_join)
    then have ns: "\<not> is_style (dirPath @ [name])" and na: "\<not> is_asset (dirPath @ [name])"
      by (simp_all add: is_script_def is_style_def is_asset_def)
    from analyzeBuildDirectory_Inr [OF a] found
    have "a = \<lparr>totalSize = sum_list (map (stat_size e projectRoot) [dirPath @ [name]]),
             fileCount = length [dirPath @ [name]],
             jsFiles = sort_by_size (map (file_info e projectRoot)
               (filter is_script [dirPath @ [name]])),
             cssFiles = sort_by_size (map (file_info e projectRoot)
               (filter is_style [dirPath @ [name]])),
             assetFiles = map (file_info e projectRoot) (filter is_asset [dirPath @ [name]]),
             largestFiles = sort_by_size (map (file_info e projectRoot)
               (filter (\<lambda>file. stat_size e projectRoot file > 100000) [dirPath @ [name]]))\<rparr>"
      by auto
    with s ns na size have "totalSize a = 2 * 1024 * 1024 \<and> fileCount a = 1
           \<and> largestFiles a = [\<lparr>path = path_relative projectRoot (dirPath @ [name]),
                                 size_bytes = 2 * 1024 * 1024\<rparr>]
           \<and> jsFiles a = largestFiles a \<and> cssFiles a = [] \<and> assetFiles a = []"
      by (simp add: sort_by_size_def file_info_def)
    with a show ?thesis by blast
  qed
  have other: "getAllFiles_entries dirPath ((name, Other) # rest)
                 = getAllFiles_entries dirPath rest" for name rest
    by simp
  from general returns throws listing single other show ?thesis by blast
qed

text \<open>The project with the one file of 2 MB in \<^verbatim>\<open>dist\<close>; where the file cannot be
  measured, no analysis is returned.\<close>

theorem analyzeBuildDirectory_totals_witness:
  "node_at dist_project [''project''] [''project'', ''dist'']
     = Some (Dir True [(''main.js'', File (Some (2 * 1024 * 1024)) None)])
   \<and> is_script [''main.js'']
   \<and> (\<exists>a. analyzeBuildDirectory dist_project [''project''] [''project'', ''dist''] = Inr a
        \<and> totalSize a = 2097152 \<and> fileCount a = 1
        \<and> largestFiles a = [\<lparr>path = [''dist'', ''main.js''], size_bytes = 2097152\<rparr>])
   \<and> node_at unsearchable_dist_project [''project''] [''project'', ''dist'']
       = Some (Dir True [(''main.js'', File None None)])
   \<and> all_readable (Dir True [(''main.js'', File None None)])
   \<and> \<not> all_statable (Dir True [(''main.js'', File None None)])
   \<and> (\<exists>err. analyzeBuildDirectory unsearchable_dist_project [''project''] [''project'', ''dist'']
          = Inl err)"
proof -
  let ?locked = "Dir True [(''main.js'', File None None)]"
  have at: "node_at dist_project [''project''] [''project'', ''dist'']
     = Some (Dir True [(''main.js'', File (Some (2 * 1024 * 1024)) None)])"
    by (simp add: node_at_def dist_project_def)
  have script: "is_script [''main.js'']"
    by (simp add: is_script_def ext_of_def path_basename_def path_extname_def toLowerCase_def
        lower_char_def js_extensions_def)
  note single = analyzeBuildDirectory_totals [of dist_project "[''project'']"
      "[''project'', ''dist'']", THEN conjunct2, THEN conjunct2, THEN conjunct1, rule_format,
      OF conjI, OF at script]
  then obtain a where "analyzeBuildDirectory dist_project [''project''] [''project'', ''dist''] = Inr a"
    and "totalSize a = 2 * 1024 * 1024" and "fileCount a = 1"
    and "largestFiles a = [\<lparr>path = path_relative [''project''] ([''project'', ''dist''] @ [''main.js'']),
                                 size_bytes = 2 * 1024 * 1024\<rparr>]"
    by blast
  then have run: "\<exists>a. analyzeBuildDirectory dist_project [''project''] [''project'', ''dist''] = Inr a
        \<and> totalSize a = 2097152 \<and> fileCount a = 1
        \<and> largestFiles a = [\<lparr>path = [''dist'', ''main.js''], size_bytes = 2097152\<rparr>]"
    by simp
  have at': "node_at unsearchable_dist_project [''project''] [''project'', ''dist''] = Some ?locked"
    by (simp add: node_at_def unsearchable_dist_project_def)
  have shape: "isDirectory ?locked" "distinct_names ?locked" by simp_all
  have readable: "all_readable ?locked" by simp
  have unstatable: "\<not> all_statable ?locked" by (simp add: all_statable_def)
  note listing = analyzeBuildDirectory_totals [of unsearchable_dist_project "[''project'']"
      "[''project'', ''dist'']", THEN conjunct2, THEN conjunct1, rule_format, of ?locked]
  from at' shape have pre: "node_at unsearchable_dist_project [''project''] [''project'', ''dist'']
        = Some ?locked \<and> isDirectory ?locked \<and> distinct_names ?locked"
    by (simp only: simp_thms)
  from listing [OF pre, THEN conjunct2, THEN conjunct1] unstatable
  have throws: "\<exists>err. analyzeBuildDirectory unsearchable_dist_project [''project'']
          [''project'', ''dist''] = Inl err"
    by (simp only: simp_thms)
  from at script run at' readable unstatable throws show ?thesis by (simp only: simp_thms)
qed

subsection \<open>The three lists of a build directory\<close>

text \<open>
  Claim C9. In every analysis that \<^verbatim>\<open>analyzeBuildDirectory\<close> returns, the three lists
  together are as long as \<^verbatim>\<open>fileCount\<close>, which is the number of files discovered.
  Every discovered file is in exactly one list, by its lower-cased extension:
  \<^verbatim>\<open>jsFiles\<close> holds the files with a script extension, \<^verbatim>\<open>cssFiles\<close> those with a
  style extension, and \<^verbatim>\<open>assetFiles\<close> all the others.
\<close>

theorem analyzeBuildDirectory_classification:
  assumes "analyzeBuildDirectory e projectRoot dirPath = Inr a"
  shows "length (jsFiles a) + length (cssFiles a) + length (assetFiles a) = fileCount a
     \<and> (\<exists>found. getAllFiles_at e projectRoot dirPath = Inr found
          \<and> fileCount a = length found
          \<and> jsFiles a = sort_by_size (map (file_info e projectRoot) (filter is_script found))
          \<and> cssFiles a = sort_by_size (map (file_info e projectRoot) (filter is_style found))
          \<and> assetFiles a = map (file_info e projectRoot) (filter is_asset found)
          \<and> mset (jsFiles a) + mset (cssFiles a) + mset (assetFiles a)
               = mset (map (file_info e projectRoot) found)
          \<and> (\<forall>file \<in> set found.
                (if is_script file then 1 else 0) + (if is_style file then 1 else 0)
                  + (if is_asset file then 1 else 0) = (1::nat)))"
proof -
  from analyzeBuildDirectory_Inr [OF assms] obtain found
    where found: "getAllFiles_at e projectRoot dirPath = Inr found"
      and a: "a = \<lparr>totalSize = sum_list (map (stat_size e projectRoot) found),
             fileCount = length found,
             jsFiles = sort_by_size (map (file_info e projectRoot) (filter is_script found)),
             cssFiles = sort_by_size (map (file_info e projectRoot) (filter is_style found)),
             assetFiles = map (file_info e projectRoot) (filter is_asset found),
             largestFiles = sort_by_size
               (map (file_info e projectRoot)
                  (filter (\<lambda>file. stat_size e projectRoot file > 100000) found))\<rparr>"
    by blast
  have lens: "length (jsFiles a) + length (cssFiles a) + length (assetFiles a) = fileCount a"
    using partition_lengths [of found] by (simp add: a length_sort_by_size)
  have one: "\<forall>file \<in> set found.
                (if is_script file then 1 else 0) + (if is_style file then 1 else 0)
                  + (if is_asset file then 1 else 0) = (1::nat)"
    by (simp add: is_script_def is_style_def is_asset_def)
  have "mset (filter is_script xs) + mset (filter is_style xs) + mset (filter is_asset xs) = mset xs"
    for xs
    by (induction xs) (auto simp add: is_script_def is_style_def is_asset_def)
  from this [of found]
  have "mset (map (file_info e projectRoot) (filter is_script found))
          + mset (map (file_info e projectRoot) (filter is_style found))
          + mset (map (file_info e projectRoot) (filter is_asset found))
        = mset (map (file_info e projectRoot) found)"
    by (metis image_mset_union mset_map)
  then have ms: "mset (jsFiles a) + mset (cssFiles a) + mset (assetFiles a)
               = mset (map (file_info e projectRoot) found)"
    by (simp add: a sort_by_size_def)
  from lens found a ms one show ?thesis by simp
qed

text \<open>The project with a script, a style sheet and an image.\<close>

theorem analyzeBuildDirectory_classification_witness:
  "\<exists>a. analyzeBuildDirectory assets_project [''project''] [''project'', ''build''] = Inr a
     \<and> fileCount a = 3
     \<and> length (jsFiles a) + length (cssFiles a) + length (assetFiles a) = 3
     \<and> map path (jsFiles a) = [[''build'', ''app.js'']]
     \<and> map path (cssFiles a) = [[''build'', ''style.CSS'']]
     \<and> map path (assetFiles a) = [[''build'', ''img'', ''logo.png'']]"
proof -
  let ?n = "Dir True [(''app.js'', File (Some 10) None), (''style.CSS'', File (Some 20) None),
                (''img'', Dir True [(''logo.png'', File (Some 30) None)])]"
  let ?found = "[[''project'', ''build'', ''app.js''], [''project'', ''build'', ''style.CSS''],
                 [''project'', ''build'', ''img'', ''logo.png'']]"
  have at: "node_at assets_project [''project''] [''project'', ''build''] = Some ?n"
    by (simp add: node_at_def assets_project_def)
  have "isDirectory ?n" "distinct_names ?n" "all_readable ?n" "all_statable ?n"
    by (simp_all add: all_statable_def)
  from analyzeBuildDirectory_tree [OF at this] obtain a
    where run: "analyzeBuildDirectory assets_project [''project''] [''project'', ''build''] = Inr a"
    by blast
  have found: "getAllFiles_at assets_project [''project''] [''project'', ''build''] = Inr ?found"
    by (simp add: getAllFiles_at_def at path_join_def)
  have ext: "ext_of [''project'', ''build'', ''app.js''] = ''.js''"
    "ext_of [''project'', ''build'', ''style.CSS''] = ''.css''"
    "ext_of [''project'', ''build'', ''img'', ''logo.png''] = ''.png''"
    by (simp_all add: ext_of_def path_basename_def path_extname_def toLowerCase_def lower_char_def)
  have cls: "filter is_script ?found = [[''project'', ''build'', ''app.js'']]"
    "filter is_style ?found = [[''project'', ''build'', ''style.CSS'']]"
    "filter is_asset ?found = [[''project'', ''build'', ''img'', ''logo.png'']]"
    by (simp_all add: is_script_def is_style_def is_asset_def ext js_extensions_def
        css_extensions_def)
  note c = analyzeBuildDirectory_classification [OF run]
  from c have sum: "length (jsFiles a) + length (cssFiles a) + length (assetFiles a) = fileCount a"
    by (rule conjunct1)
  from c [THEN conjunct2] obtain found'
    where f': "getAllFiles_at assets_project [''project''] [''project'', ''build''] = Inr found'"
      and cnt: "fileCount a = length found'"
      and js: "jsFiles a = sort_by_size (map (file_info assets_project [''project'']) (filter is_script found'))"
      and css: "cssFiles a = sort_by_size (map (file_info assets_project [''project'']) (filter is_style found'))"
      and asset: "assetFiles a = map (file_info assets_project [''project'']) (filter is_asset found')"
    by (elim exE conjE) (rule that, assumption+)
  from f' found have eq: "found' = ?found" by (simp only: sum.inject)
  from sum cnt js css asset have "fileCount a = 3
     \<and> length (jsFiles a) + length (cssFiles a) + length (assetFiles a) = 3
     \<and> map path (jsFiles a) = [[''build'', ''app.js'']]
     \<and> map path (cssFiles a) = [[''build'', ''style.CSS'']]
     \<and> map path (assetFiles a) = [[''build'', ''img'', ''logo.png'']]"
    unfolding eq cls by (simp add: sort_by_size_def file_info_def)
  with run show ?thesis by (intro exI [of _ a]) (simp only: simp_thms)
qed

subsection \<open>Chunks\<close>

lemma hash_js_name_iff:
  "hash_js_name filename =
     (\<exists>pre seg. filename = pre @ ''.'' @ seg @ ''.js'' \<and> 8 \<le> length seg
        \<and> (\<forall>c \<in> set seg. hex_lower c))"
proof
  assume h: "hash_js_name filename"
  let ?t = "take (length filename - 3) filename"
  let ?run = "takeWhile hex_lower (rev ?t)"
  from h have "suffix ''.js'' filename" by (simp add: hash_js_name_def endsWith_def)
  then obtain t where t: "filename = t @ ''.js''" by (auto simp add: suffix_def)
  then have tt: "?t = t" by simp
  from h obtain cs where len: "8 \<le> length ?run" and dw: "dropWhile hex_lower (rev ?t) = CHR ''.'' # cs"
    by (auto simp add: hash_js_name_def Let_def split: list.splits)
  have "rev ?t = ?run @ dropWhile hex_lower (rev ?t)" by simp
  with dw have "rev ?t = ?run @ CHR ''.'' # cs" by simp
  then have "rev (rev ?t) = rev (?run @ CHR ''.'' # cs)" by (rule arg_cong)
  then have "?t = rev cs @ ''.'' @ rev ?run" by simp
  with tt t have "filename = rev cs @ ''.'' @ rev ?run @ ''.js''" by simp
  moreover from len have "8 \<le> length (rev ?run)" by simp
  moreover have "\<forall>c \<in> set (rev ?run). hex_lower c" by (auto dest: set_takeWhileD)
  ultimately show "\<exists>pre seg. filename = pre @ ''.'' @ seg @ ''.js'' \<and> 8 \<le> length seg
        \<and> (\<forall>c \<in> set seg. hex_lower c)"
    by blast
next
  assume "\<exists>pre seg. filename = pre @ ''.'' @ seg @ ''.js'' \<and> 8 \<le> length seg
        \<and> (\<forall>c \<in> set seg. hex_lower c)"
  then obtain pre seg where f: "filename = pre @ ''.'' @ seg @ ''.js''" and len: "8 \<le> length seg"
    and hex: "\<forall>c \<in> set seg. hex_lower c"
    by blast
  from f have t: "take (length filename - 3) filename = pre @ ''.'' @ seg" by simp
  have nd: "\<not> hex_lower CHR ''.''" by (simp add: hex_lower_def)
  from hex have all: "\<forall>c \<in> set (rev seg). hex_lower c" by simp
  have r: "rev (pre @ ''.'' @ seg) = rev seg @ CHR ''.'' # rev pre" by simp
  have "takeWhile hex_lower (rev seg @ CHR ''.'' # rev pre)
          = rev seg @ takeWhile hex_lower (CHR ''.'' # rev pre)"
    by (rule takeWhile_append2) (use all in blast)
  with nd have tw: "takeWhile hex_lower (rev seg @ CHR ''.'' # rev pre) = rev seg"
    by simp
  have "dropWhile hex_lower (rev seg @ CHR ''.'' # rev pre)
          = dropWhile hex_lower (CHR ''.'' # rev pre)"
    by (rule dropWhile_append2) (use all in blast)
  with nd have dw: "dropWhile hex_lower (rev seg @ CHR ''.'' # rev pre) = CHR ''.'' # rev pre"
    by simp
  from f have e: "endsWith filename ''.js''" by (simp add: endsWith_def suffix_def)
  from e len show "hash_js_name filename"
    unfolding hash_js_name_def Let_def t r tw dw by simp
qed

lemma foldl_classify_chunk:
  "chunkFiles (foldl classify_chunk a js) = chunkFiles a @ filter chunk_file js"
  "chunk_recommendations (foldl classify_chunk a js) = chunk_recommendations a"
  by (induction js arbitrary: a) (simp_all add: classify_chunk_def Let_def chunk_file_def)

lemma check_entry_chunkFiles: "chunkFiles (check_entry a f) = chunkFiles a"
  by (simp add: check_entry_def)

lemma check_entry_recommendations:
  "chunk_recommendations (check_entry a f) =
     chunk_recommendations a @
       (if size_bytes f > 500000 \<and> path f \<notin> path ` set (chunkFiles a)
        then [entry_recommendation f] else [])"
proof -
  have "(find (\<lambda>c. path c = path f) (chunkFiles a) = None) = (path f \<notin> path ` set (chunkFiles a))"
    unfolding find_None_iff by (auto simp add: image_iff)
  then show ?thesis by (simp add: check_entry_def entry_recommendation_def)
qed

lemma foldl_check_entry_chunkFiles: "chunkFiles (foldl check_entry a js) = chunkFiles a"
  by (induction js arbitrary: a) (simp_all add: check_entry_chunkFiles)

lemma foldl_check_entry:
  "chunk_recommendations (foldl check_entry a js) =
     chunk_recommendations a @
       map entry_recommendation
         (filter (\<lambda>f. size_bytes f > 500000 \<and> path f \<notin> path ` set (chunkFiles a)) js)"
  by (induction js arbitrary: a)
    (simp_all add: check_entry_recommendations check_entry_chunkFiles)

lemma chunking_eq:
  "chunkFiles (chunking js) = filter chunk_file js"
  "chunk_recommendations (chunking js) =
     map entry_recommendation
       (filter (\<lambda>f. size_bytes f > 500000 \<and> path f \<notin> path ` set (filter chunk_file js)) js)"
  by (simp_all add: chunking_def foldl_check_entry foldl_check_entry_chunkFiles
      foldl_classify_chunk)

lemma count_by_path:
  fixes js :: "fileInfo list"
  assumes "distinct (map path js)" and "f \<in> set js"
  shows "length (filter (\<lambda>g. path g = path f \<and> Q g) js) = (if Q f then 1 else 0)"
  using assms
proof (induction js)
  case Nil
  then show ?case by simp
next
  case (Cons g js)
  show ?case
  proof (cases "g = f")
    case True
    with Cons.prems(1) have "path f \<notin> path ` set js" by simp
    then have "\<forall>g \<in> set js. path g \<noteq> path f" by (auto simp add: image_iff)
    then have "filter (\<lambda>g. path g = path f \<and> Q g) js = []"
      by (simp add: filter_empty_conv)
    with True show ?thesis by simp
  next
    case False
    with Cons.prems(2) have mem: "f \<in> set js" by simp
    with Cons.prems(1) have "path g \<noteq> path f" by auto
    with Cons.IH [OF _ mem] Cons.prems(1) show ?thesis by simp
  qed
qed

text \<open>
  Claim C8, as the code has it. \<^verbatim>\<open>analyzeChunking\<close> takes a script file of the build
  output for a chunk if and only if its file name contains \<^verbatim>\<open>chunk\<close>, \<^verbatim>\<open>vendor\<close> or
  \<^verbatim>\<open>common\<close>, or ends with a dot, at least 8 characters out of \<^verbatim>\<open>0\<close> to \<^verbatim>\<open>9\<close> and the
  lower-case letters \<^verbatim>\<open>a\<close> to \<^verbatim>\<open>f\<close>, and the extension \<^verbatim>\<open>.js\<close>. The paths of the script
  files being distinct, every script file of more than 500000 bytes that is not taken
  for a chunk gets exactly one recommendation, and every other script file gets none.
\<close>

theorem analyzeChunking_chunks:
  "analyzeChunking results = (results\<lparr>chunkAnalysis := Some (chunking (all_jsFiles results))\<rparr>, None)
   \<and> (\<forall>f \<in> set (all_jsFiles results).
        (f \<in> set (chunkFiles (chunking (all_jsFiles results))))
          = is_chunk_name (path_basename (path f)))
   \<and> is_chunk_name filename =
        (str_includes filename ''chunk'' \<or> str_includes filename ''vendor''
         \<or> str_includes filename ''common''
         \<or> (\<exists>pre seg. filename = pre @ ''.'' @ seg @ ''.js'' \<and> 8 \<le> length seg
              \<and> (\<forall>c \<in> set seg. c \<in> set ''abcdef0123456789'')))
   \<and> (distinct (map path (all_jsFiles results)) \<longrightarrow>
        (\<forall>f \<in> set (all_jsFiles results).
           length (filter (\<lambda>r. rec_file r = path f)
                     (chunk_recommendations (chunking (all_jsFiles results))))
             = (if size_bytes f > 500000 \<and> \<not> is_chunk_name (path_basename (path f))
                then 1 else 0)))"
proof -
  let ?js = "all_jsFiles results"
  have run: "analyzeChunking results = (results\<lparr>chunkAnalysis := Some (chunking ?js)\<rparr>, None)"
    by (simp add: analyzeChunking_def)
  have chunks: "\<forall>f \<in> set ?js. (f \<in> set (chunkFiles (chunking ?js))) = is_chunk_name (path_basename (path f))"
    by (simp add: chunking_eq chunk_file_def)
  have name: "is_chunk_name filename =
        (str_includes filename ''chunk'' \<or> str_includes filename ''vendor''
         \<or> str_includes filename ''common''
         \<or> (\<exists>pre seg. filename = pre @ ''.'' @ seg @ ''.js'' \<and> 8 \<le> length seg
              \<and> (\<forall>c \<in> set seg. c \<in> set ''abcdef0123456789'')))"
    unfolding is_chunk_name_def hash_js_name_iff hex_lower_def ..
  have recs: "length (filter (\<lambda>r. rec_file r = path f) (chunk_recommendations (chunking ?js)))
             = (if size_bytes f > 500000 \<and> \<not> is_chunk_name (path_basename (path f)) then 1 else 0)"
    if d: "distinct (map path ?js)" and f: "f \<in> set ?js" for f
  proof -
    let ?Q = "\<lambda>g. size_bytes g > 500000 \<and> path g \<notin> path ` set (filter chunk_file ?js)"
    have "length (filter (\<lambda>r. rec_file r = path f) (chunk_recommendations (chunking ?js)))
            = length (filter (\<lambda>g. path g = path f \<and> ?Q g) ?js)"
      by (simp add: chunking_eq filter_map comp_def entry_recommendation_def conj_ac)
    also have "\<dots> = (if ?Q f then 1 else 0)"
      by (rule count_by_path [OF d f])
    also have "(path f \<in> path ` set (filter chunk_file ?js)) = chunk_file f"
    proof
      assume "path f \<in> path ` set (filter chunk_file ?js)"
      then obtain g where g: "g \<in> set ?js" "chunk_file g" "path g = path f" by auto
      from d have "inj_on path (set ?js)" by (simp add: distinct_map)
      with g f have "g = f" by (auto dest: inj_onD)
      with g show "chunk_file f" by simp
    next
      assume "chunk_file f"
      with f show "path f \<in> path ` set (filter chunk_file ?js)" by auto
    qed
    finally show ?thesis by (simp add: chunk_file_def)
  qed
  from run chunks name recs show ?thesis by blast
qed

text \<open>Two script files of 600000 and 700000 bytes, the second with a hashed name.\<close>

theorem analyzeChunking_chunks_witness:
  "distinct (map path (all_jsFiles (ba_initial\<lparr>buildSize :=
       [(''dist'', empty_analysis\<lparr>jsFiles := [hashed_js, plain_main]\<rparr>)]\<rparr>)))
   \<and> plain_main \<in> set (all_jsFiles (ba_initial\<lparr>buildSize :=
       [(''dist'', empty_analysis\<lparr>jsFiles := [hashed_js, plain_main]\<rparr>)]\<rparr>))
   \<and> \<not> is_chunk_name ''main.js'' \<and> is_chunk_name ''app.0123abcd.js''
   \<and> length (filter (\<lambda>r. rec_file r = [''dist'', ''main.js''])
        (chunk_recommendations (chunking [hashed_js, plain_main]))) = 1
   \<and> length (filter (\<lambda>r. rec_file r = [''dist'', ''app.0123abcd.js''])
        (chunk_recommendations (chunking [hashed_js, plain_main]))) = 0"
proof -
  let ?r = "ba_initial\<lparr>buildSize := [(''dist'', empty_analysis\<lparr>jsFiles := [hashed_js, plain_main]\<rparr>)]\<rparr>"
  have js: "all_jsFiles ?r = [hashed_js, plain_main]"
    by (simp add: all_jsFiles_def)
  have d: "distinct (map path (all_jsFiles ?r))"
    unfolding js by (simp add: hashed_js_def plain_main_def)
  have n1: "\<not> is_chunk_name ''main.js''"
    by (simp add: is_chunk_name_def str_includes_def sublist_code hash_js_name_def endsWith_def
        suffix_to_prefix hex_lower_def)
  have n2: "is_chunk_name ''app.0123abcd.js''"
    by (simp add: is_chunk_name_def str_includes_def sublist_code hash_js_name_def endsWith_def
        suffix_to_prefix hex_lower_def)
  from analyzeChunking_chunks [of ?r] d
  have all: "\<forall>f \<in> set (all_jsFiles ?r).
           length (filter (\<lambda>r. rec_file r = path f)
                     (chunk_recommendations (chunking (all_jsFiles ?r))))
             = (if size_bytes f > 500000 \<and> \<not> is_chunk_name (path_basename (path f))
                then 1 else 0)"
    by blast
  from all [unfolded js] n1 n2
  have "length (filter (\<lambda>r. rec_file r = [''dist'', ''main.js''])
        (chunk_recommendations (chunking [hashed_js, plain_main]))) = 1"
    and "length (filter (\<lambda>r. rec_file r = [''dist'', ''app.0123abcd.js''])
        (chunk_recommendations (chunking [hashed_js, plain_main]))) = 0"
    by (simp_all add: hashed_js_def plain_main_def path_basename_def)
  with d n1 n2 js show ?thesis by simp
qed

text \<open>
  Claim C8 as stated fails: the script file \<^verbatim>\<open>app.0123abcd.mjs\<close> ends with a
  dot-separated hexadecimal segment of 8 characters just before its extension, and
  \<^verbatim>\<open>analyzeChunking\<close> does not take it for a chunk (and recommends to split it).
\<close>

theorem analyzeChunking_mjs_counterexample:
  "is_script (path hashed_mjs)
   \<and> spec_chunk_name (path_basename (path hashed_mjs))
   \<and> \<not> is_chunk_name (path_basename (path hashed_mjs))
   \<and> chunkFiles (chunking [hashed_mjs]) = []
   \<and> map rec_file (chunk_recommendations (chunking [hashed_mjs])) = [[''dist'', ''app.0123abcd.mjs'']]"
proof -
  have b: "path_basename (path hashed_mjs) = ''app.0123abcd.mjs''"
    by (simp add: hashed_mjs_def path_basename_def)
  have s: "is_script (path hashed_mjs)"
    by (simp add: is_script_def ext_of_def b path_extname_def toLowerCase_def lower_char_def
        js_extensions_def)
  have sp: "spec_chunk_name ''app.0123abcd.mjs''"
    by (simp add: spec_chunk_name_def spec_hash_name_def hex_digit_def)
  have n: "\<not> is_chunk_name ''app.0123abcd.mjs''"
    by (simp add: is_chunk_name_def str_includes_def sublist_code hash_js_name_def endsWith_def
        suffix_to_prefix)
  from n have c: "\<not> chunk_file hashed_mjs" by (simp add: chunk_file_def b)
  from c have "chunkFiles (chunking [hashed_mjs]) = []"
    and "map rec_file (chunk_recommendations (chunking [hashed_mjs])) = [[''dist'', ''app.0123abcd.mjs'']]"
    by (simp_all add: chunking_eq entry_recommendation_def hashed_mjs_def)
  with s sp n b show ?thesis by simp
qed

end
